theory Spec2Isabelle
  imports Main
begin

section \<open>JavaScript values\<close>

text \<open>
  The gateway passes JSON documents around as plain JavaScript values. They are modelled
  by one datatype; an object is the list of its own properties in insertion order (keys
  of a well-formed object are distinct, and lookup takes the first entry). Numbers that
  matter here (status codes, error codes, delays, counters) are integers.
\<close>

datatype jsval =
    JUndefined
  | JNull
  | JBool bool
  | JNum int
  | JStr string
  | JArr "jsval list"
  | JObj "(string \<times> jsval) list"

text \<open>\<^verbatim>\<open>typeof v\<close>.\<close>

fun typeof :: "jsval \<Rightarrow> string" where
  "typeof JUndefined = ''undefined''"
| "typeof JNull = ''object''"
| "typeof (JBool b) = ''boolean''"
| "typeof (JNum n) = ''number''"
| "typeof (JStr s) = ''string''"
| "typeof (JArr xs) = ''object''"
| "typeof (JObj kvs) = ''object''"

text \<open>Truthiness, as \<^verbatim>\<open>if (v)\<close>, \<^verbatim>\<open>!v\<close> and \<^verbatim>\<open>v || w\<close> test it.\<close>

fun truthy :: "jsval \<Rightarrow> bool" where
  "truthy JUndefined = False"
| "truthy JNull = False"
| "truthy (JBool b) = b"
| "truthy (JNum n) = (n \<noteq> 0)"
| "truthy (JStr s) = (s \<noteq> [])"
| "truthy (JArr xs) = True"
| "truthy (JObj kvs) = True"

text \<open>
  \<^verbatim>\<open>v.k\<close> for the property names the gateway reads (none of them is an array index or
  \<^verbatim>\<open>length\<close>): the own property of an object, \<^verbatim>\<open>undefined\<close> when it is absent or when
  \<open>v\<close> is an array or a primitive. Reading a property of \<^verbatim>\<open>null\<close> or \<^verbatim>\<open>undefined\<close>
  throws in JavaScript; the callers below test for that before they read.
\<close>

fun getProp :: "jsval \<Rightarrow> string \<Rightarrow> jsval" where
  "getProp (JObj kvs) k = (case map_of kvs k of Some v \<Rightarrow> v | None \<Rightarrow> JUndefined)"
| "getProp v k = JUndefined"

text \<open>\<^verbatim>\<open>k in v\<close> for an object or array \<open>v\<close> and the same property names.\<close>

fun hasKey :: "string \<Rightarrow> jsval \<Rightarrow> bool" where
  "hasKey k (JObj kvs) = (k \<in> set (map fst kvs))"
| "hasKey k v = False"

text \<open>Decimal rendering of a counter or an array index, as template strings do.\<close>

definition digit10 :: "nat \<Rightarrow> char" where
  "digit10 n = ''0123456789'' ! n"

fun decimal :: "nat \<Rightarrow> string" where
  "decimal n = (if n < 10 then [digit10 n] else decimal (n div 10) @ [digit10 (n mod 10)])"

declare decimal.simps [simp del]

text \<open>\<^verbatim>\<open>String.prototype.toLowerCase\<close> and \<^verbatim>\<open>String.prototype.includes\<close> on ASCII text.\<close>

definition lowerChar :: "char \<Rightarrow> char" where
  "lowerChar c =
     (let n = (of_char c :: nat) in if 65 \<le> n \<and> n \<le> 90 then char_of (n + 32) else c)"

definition toLowerCase :: "string \<Rightarrow> string" where
  "toLowerCase s = map lowerChar s"

primrec startsWith :: "string \<Rightarrow> string \<Rightarrow> bool" where
  "startsWith s [] = True"
| "startsWith s (c # cs) = (case s of [] \<Rightarrow> False | d # ds \<Rightarrow> d = c \<and> startsWith ds cs)"

primrec includesStr :: "string \<Rightarrow> string \<Rightarrow> bool" where
  "includesStr [] sub = (sub = [])"
| "includesStr (c # cs) sub = (startsWith (c # cs) sub \<or> includesStr cs sub)"

section \<open>Envelopes (models.ts)\<close>

text \<open>
  \<^verbatim>\<open>createMCPResponse(result, id)\<close> and \<^verbatim>\<open>createMCPErrorResponse(code, message, id, data)\<close>
  build object literals; an omitted argument is \<^verbatim>\<open>undefined\<close>.
\<close>

definition createMCPResponse :: "jsval \<Rightarrow> jsval \<Rightarrow> jsval" where
  "createMCPResponse result ident =
     JObj [(''result'', result), (''id'', ident), (''jsonrpc'', JStr ''2.0'')]"

definition createMCPErrorResponse :: "int \<Rightarrow> string \<Rightarrow> jsval \<Rightarrow> jsval \<Rightarrow> jsval" where
  "createMCPErrorResponse code message ident data =
     JObj [(''error'', JObj [(''code'', JNum code), (''message'', JStr message), (''data'', data)]),
           (''id'', ident), (''jsonrpc'', JStr ''2.0'')]"

text \<open>The \<open>code\<close> and the \<open>message\<close> of an envelope's error.\<close>

definition errorCode :: "jsval \<Rightarrow> jsval" where
  "errorCode envelope = getProp (getProp envelope ''error'') ''code''"

definition errorMessage :: "jsval \<Rightarrow> jsval" where
  "errorMessage envelope = getProp (getProp envelope ''error'') ''message''"

lemma errorCode_created [simp]: "errorCode (createMCPErrorResponse c msg i dat) = JNum c"
  by (simp add: errorCode_def createMCPErrorResponse_def)

lemma errorMessage_created [simp]: "errorMessage (createMCPErrorResponse c msg i dat) = JStr msg"
  by (simp add: errorMessage_def createMCPErrorResponse_def)

lemma no_result_created [simp]: "\<not> hasKey ''result'' (createMCPErrorResponse c msg i dat)"
  by (simp add: createMCPErrorResponse_def)

section \<open>ErrorHandler: retry delay (error-handler.ts)\<close>

text \<open>
  \<^verbatim>\<open>Math.min(baseDelay * Math.pow(2, attempt - 1), 30000)\<close>, for attempt numbers from 1 and
  a base delay that is a non-negative integer of milliseconds. On these inputs the
  floating-point result is the integer one: a product below the cap is exact, and a
  product at or above it is cut to 30000 whatever its rounding.
\<close>

definition getRetryDelay :: "nat \<Rightarrow> nat \<Rightarrow> nat" where
  "getRetryDelay attempt baseDelay = min (baseDelay * 2 ^ (attempt - 1)) 30000"

section \<open>RequestForwarder (request-forwarder.ts)\<close>

text \<open>
  The request envelope; \<open>reqId\<close> is a string or \<^verbatim>\<open>undefined\<close>.
\<close>

record MCPRequest =
  reqMethod :: string
  reqParams :: jsval
  reqId :: jsval
  reqJsonrpc :: string

text \<open>
  \<^verbatim>\<open>ForwardingOptions\<close>: every field is optional. \<^verbatim>\<open>{ ...this.defaultOptions, ...options }\<close>
  takes a field of \<open>options\<close> when it is present and the default otherwise.
\<close>

record ForwardingOptions =
  timeout :: "nat option"
  maxRetries :: "nat option"
  retryDelay :: "nat option"

record ForwardingOpts =
  optTimeout :: nat
  optMaxRetries :: nat
  optRetryDelay :: nat

definition defaultOptions :: ForwardingOpts where
  "defaultOptions = \<lparr>optTimeout = 30000, optMaxRetries = 3, optRetryDelay = 1000\<rparr>"

definition mergeOptions :: "ForwardingOpts \<Rightarrow> ForwardingOptions \<Rightarrow> ForwardingOpts" where
  "mergeOptions d options =
     \<lparr>optTimeout = (case timeout options of Some t \<Rightarrow> t | None \<Rightarrow> optTimeout d),
      optMaxRetries = (case maxRetries options of Some m \<Rightarrow> m | None \<Rightarrow> optMaxRetries d),
      optRetryDelay = (case retryDelay options of Some r \<Rightarrow> r | None \<Rightarrow> optRetryDelay d)\<rparr>"

text \<open>
  What one \<^verbatim>\<open>httpClient.post\<close> does: it resolves with a status and the parsed body, or it
  rejects. A rejection is an Axios error (\<^verbatim>\<open>isAxiosError === true\<close>), with the status of
  the backend's reply when there was one and none for a network failure or a timeout, or
  some other error; both carry a message.
\<close>

datatype thrown =
    AxiosError "nat option" string
  | OtherError string

datatype http_outcome =
    Resolved nat jsval
  | Rejected thrown

fun errMessage :: "thrown \<Rightarrow> string" where
  "errMessage (AxiosError st msg) = msg"
| "errMessage (OtherError msg) = msg"

text \<open>\<^verbatim>\<open>isValidMCPResponse(data)\<close>.\<close>

definition isValidMCPResponse :: "jsval \<Rightarrow> bool" where
  "isValidMCPResponse data =
     (if \<not> truthy data \<or> typeof data \<noteq> ''object'' then False
      else if getProp data ''jsonrpc'' \<noteq> JStr ''2.0'' then False
      else
        let hasResult = hasKey ''result'' data;
            hasError = hasKey ''error'' data
        in if hasResult \<and> hasError then False
           else if \<not> hasResult \<and> \<not> hasError then False
           else if hasError then
             (let error = getProp data ''error''
              in if \<not> truthy error \<or> typeof error \<noteq> ''object'' then False
                 else if typeof (getProp error ''code'') \<noteq> ''number''
                         \<or> typeof (getProp error ''message'') \<noteq> ''string'' then False
                 else True)
           else True)"

text \<open>
  The body of the \<^verbatim>\<open>try\<close> block of one attempt: the reply is returned when it is a valid
  envelope, and otherwise the block throws, as it does when the post rejects.
\<close>

definition tryAttempt :: "string \<Rightarrow> http_outcome \<Rightarrow> thrown + jsval" where
  "tryAttempt serverUrl outcome =
     (case outcome of
        Resolved status data \<Rightarrow>
          if \<not> isValidMCPResponse data
          then Inl (OtherError (''Invalid MCP response format from '' @ serverUrl))
          else Inr data
      | Rejected e \<Rightarrow> Inl e)"

text \<open>
  The test in the \<^verbatim>\<open>catch\<close> block that leaves the loop: an Axios error whose reply has a
  status from 400 up to 499.
\<close>

fun isClientError :: "thrown \<Rightarrow> bool" where
  "isClientError (AxiosError (Some status) msg) = (status \<noteq> 0 \<and> status \<ge> 400 \<and> status < 500)"
| "isClientError (AxiosError None msg) = False"
| "isClientError (OtherError msg) = False"

text \<open>
  The delay the retry loop sleeps after a failed attempt:
  \<^verbatim>\<open>opts.retryDelay * Math.pow(2, attempt - 1)\<close>.
\<close>

definition backoffDelay :: "nat \<Rightarrow> nat \<Rightarrow> nat" where
  "backoffDelay baseDelay attempt = baseDelay * 2 ^ (attempt - 1)"

text \<open>
  How the \<^verbatim>\<open>for\<close> loop ends: by \<^verbatim>\<open>return response.data\<close>, or by leaving the loop with
  the last error caught. Both carry the number of posts made and the delays slept, in
  order.
\<close>

datatype loop_exit =
    Returned jsval nat "nat list"
  | Failed "thrown option" nat "nat list"

text \<open>
  \<^verbatim>\<open>for (let attempt = 1; attempt <= opts.maxRetries; attempt++)\<close>, entered at
  \<open>attempt\<close> with the last error caught so far; \<open>post n\<close> is what the \<open>n\<close>-th post does.
\<close>

function forwardLoop ::
  "(nat \<Rightarrow> http_outcome) \<Rightarrow> string \<Rightarrow> ForwardingOpts \<Rightarrow> nat \<Rightarrow> thrown option \<Rightarrow> nat list
     \<Rightarrow> loop_exit" where
  "forwardLoop post serverUrl opts attempt lastError slept =
     (if attempt \<le> optMaxRetries opts then
        (case tryAttempt serverUrl (post attempt) of
           Inr data \<Rightarrow> Returned data attempt slept
         | Inl e \<Rightarrow>
             if isClientError e then Failed (Some e) attempt slept
             else if attempt < optMaxRetries opts
             then forwardLoop post serverUrl opts (attempt + 1) (Some e)
                    (slept @ [backoffDelay (optRetryDelay opts) attempt])
             else forwardLoop post serverUrl opts (attempt + 1) (Some e) slept)
      else Failed lastError (attempt - 1) slept)"
  by pat_completeness auto
termination
  by (relation "measure (\<lambda>(post, serverUrl, opts, attempt, lastError, slept).
        optMaxRetries opts + 1 - attempt)") auto

declare forwardLoop.simps [simp del]

text \<open>
  What \<^verbatim>\<open>forwardRequest\<close> hands back, with the posts it made and the delays it slept.
\<close>

record ForwardResult =
  response :: jsval
  attempts :: nat
  delays :: "nat list"

text \<open>\<^verbatim>\<open>lastError?.message || 'Unknown error'\<close>.\<close>

definition lastErrorMessage :: "thrown option \<Rightarrow> string" where
  "lastErrorMessage lastError =
     (case lastError of
        None \<Rightarrow> ''Unknown error''
      | Some e \<Rightarrow> if errMessage e = [] then ''Unknown error'' else errMessage e)"

text \<open>
  \<^verbatim>\<open>forwardRequest(serverUrl, request, options)\<close>. \<open>totalDuration\<close> is the clock reading
  \<^verbatim>\<open>Date.now() - startTime\<close> taken after the loop.
\<close>

definition forwardRequest ::
  "string \<Rightarrow> MCPRequest \<Rightarrow> ForwardingOptions \<Rightarrow> (nat \<Rightarrow> http_outcome) \<Rightarrow> nat \<Rightarrow> ForwardResult" where
  "forwardRequest serverUrl request options post totalDuration =
     (let opts = mergeOptions defaultOptions options
      in case forwardLoop post serverUrl opts 1 None [] of
           Returned data n slept \<Rightarrow> \<lparr>response = data, attempts = n, delays = slept\<rparr>
         | Failed lastError n slept \<Rightarrow>
             \<lparr>response =
                createMCPErrorResponse (- 32603)
                  (''Failed to forward request to '' @ serverUrl @ '': ''
                     @ lastErrorMessage lastError)
                  (reqId request)
                  (JObj [(''serverUrl'', JStr serverUrl),
                         (''attempts'', JNum (int (optMaxRetries opts))),
                         (''totalDuration'', JStr (decimal totalDuration @ ''ms''))]),
              attempts = n, delays = slept\<rparr>)"

section \<open>Router (router.ts)\<close>

record ServerConfig =
  serverConfigName :: string
  url :: string
  serverTimeout :: "nat option"
  serverMaxRetries :: "nat option"
  healthCheckPath :: "string option"

text \<open>
  The strategy is kept as the string the configuration file gave: the code tests it
  against \<^verbatim>\<open>"prefix"\<close> and \<^verbatim>\<open>"header"\<close> and has a branch for anything else. The rules
  and the servers are plain objects keyed by name, given by their own properties in the
  order of the file.
\<close>

record RoutingConfig =
  strategy :: string
  rules :: "(string \<times> string) list"
  defaultServer :: "string option"

record Router =
  config :: RoutingConfig
  servers :: "(string \<times> ServerConfig) list"

text \<open>
  \<^verbatim>\<open>obj[key]\<close> on a plain object reads the own property under the key and, when there is
  none, the member of \<^verbatim>\<open>Object.prototype\<close> under it: a function for every name but
  \<^verbatim>\<open>__proto__\<close>, which gives \<^verbatim>\<open>Object.prototype\<close> itself. All of them are truthy and
  none is a string.
\<close>

definition objectPrototypeKeys :: "string list" where
  "objectPrototypeKeys =
     [''constructor'', ''__defineGetter__'', ''__defineSetter__'', ''hasOwnProperty'',
      ''__lookupGetter__'', ''__lookupSetter__'', ''isPrototypeOf'', ''propertyIsEnumerable'',
      ''toString'', ''valueOf'', ''__proto__'', ''toLocaleString'']"

datatype 'a property = Own 'a | Inherited string | Missing

definition readProperty :: "(string \<times> 'a) list \<Rightarrow> string \<Rightarrow> 'a property" where
  "readProperty obj key =
     (case map_of obj key of
        Some v \<Rightarrow> Own v
      | None \<Rightarrow> if key \<in> set objectPrototypeKeys then Inherited key else Missing)"

text \<open>
  What \<^verbatim>\<open>routeByPrefix\<close> and \<^verbatim>\<open>routeByHeader\<close> return as the server name: the string of
  a rule or of the default, or the member of \<^verbatim>\<open>Object.prototype\<close> found under the key.
  \<open>targetText\<close> is \<^verbatim>\<open>String(serverName)\<close>, which is also the property key it makes:
  the source text of a built-in function, and \<^verbatim>\<open>[object Object]\<close> for the prototype.
\<close>

datatype target = Named string | Member string

definition memberText :: "string \<Rightarrow> string" where
  "memberText key =
     (if key = ''__proto__'' then ''[object Object]''
      else ''function '' @ (if key = ''constructor'' then ''Object'' else key)
             @ ''() { [native code] }'')"

fun targetText :: "target \<Rightarrow> string" where
  "targetText (Named s) = s"
| "targetText (Member key) = memberText key"

text \<open>
  The result of \<^verbatim>\<open>routeRequest\<close>. \<open>serverUrl\<close> is \<open>None\<close> when it is \<^verbatim>\<open>undefined\<close>.
\<close>

record RoutingResult =
  serverName :: target
  serverUrl :: "string option"
  success :: bool
  error :: "string option"

text \<open>A \<^verbatim>\<open>RoutingError\<close>: its message and its details.\<close>

datatype RoutingError = RoutingError string string

fun routingErrorMessage :: "RoutingError \<Rightarrow> string" where
  "routingErrorMessage (RoutingError message details) = message"

text \<open>
  \<^verbatim>\<open>this.config.rules[key]\<close> followed by \<^verbatim>\<open>if (serverName)\<close>: a rule whose target is the
  empty string counts as no rule, and an inherited member counts as a rule.
\<close>

definition lookupRule :: "RoutingConfig \<Rightarrow> string \<Rightarrow> target option" where
  "lookupRule cfg key =
     (case readProperty (rules cfg) key of
        Own t \<Rightarrow> if t \<noteq> [] then Some (Named t) else None
      | Inherited member \<Rightarrow> Some (Member member)
      | Missing \<Rightarrow> None)"

text \<open>
  \<^verbatim>\<open>requestPath.replace(/^\/+/, "").split("/")[0]\<close>: the text between the leading
  slashes and the next slash, or the end of the path when no slash follows.
\<close>

definition firstSegment :: "string \<Rightarrow> string" where
  "firstSegment requestPath =
     takeWhile (\<lambda>c. c \<noteq> CHR ''/'') (dropWhile (\<lambda>c. c = CHR ''/'') requestPath)"

definition routeByPrefix :: "RoutingConfig \<Rightarrow> string option \<Rightarrow> target option" where
  "routeByPrefix cfg requestPath =
     (case requestPath of
        None \<Rightarrow> None
      | Some path \<Rightarrow>
          if path = [] then None
          else let prefix = firstSegment path
               in if prefix = [] then None else lookupRule cfg prefix)"

definition routeByHeader :: "RoutingConfig \<Rightarrow> (string \<times> string) list option \<Rightarrow> target option" where
  "routeByHeader cfg headers =
     (case headers of
        None \<Rightarrow> None
      | Some hs \<Rightarrow>
          (case find (\<lambda>key. toLowerCase key = ''x-target-mcp'') (map fst hs) of
             None \<Rightarrow> None
           | Some targetHeader \<Rightarrow>
               (case map_of hs targetHeader of
                  None \<Rightarrow> None
                | Some targetValue \<Rightarrow>
                    if targetValue = [] then None else lookupRule cfg targetValue)))"

text \<open>
  \<^verbatim>\<open>getServerUrl(serverName)\<close>: \<^verbatim>\<open>this.servers[serverName]\<close> followed by \<^verbatim>\<open>if (!server)\<close>
  and \<^verbatim>\<open>return server.url\<close>. An inherited member passes the test and has no \<open>url\<close>, so
  the address returned is \<^verbatim>\<open>undefined\<close>.
\<close>

definition getServerUrl :: "Router \<Rightarrow> target \<Rightarrow> RoutingError + string option" where
  "getServerUrl r t =
     (case readProperty (servers r) (targetText t) of
        Missing \<Rightarrow>
          Inl (RoutingError ''Server not found''
                 (''Server '' @ [CHR 0x27] @ targetText t @ [CHR 0x27] @ '' is not configured''))
      | Own server \<Rightarrow> Inr (Some (url server))
      | Inherited member \<Rightarrow> Inr None)"

text \<open>
  The \<^verbatim>\<open>try\<close> block of \<^verbatim>\<open>routeRequest\<close>: a thrown \<^verbatim>\<open>RoutingError\<close> is \<open>Inl\<close>, the
  chosen server and its address \<open>Inr\<close>. A default server that is the empty string counts
  as none.
\<close>

definition resolveRoute ::
  "Router \<Rightarrow> string option \<Rightarrow> (string \<times> string) list option
     \<Rightarrow> RoutingError + (target \<times> string option)" where
  "resolveRoute r requestPath headers =
     (let cfg = config r;
          byStrategy =
            (if strategy cfg = ''prefix'' then Inr (routeByPrefix cfg requestPath)
             else if strategy cfg = ''header'' then Inr (routeByHeader cfg headers)
             else Inl (RoutingError ''Invalid routing strategy''
                         (''Unknown strategy: '' @ strategy cfg)))
      in case byStrategy of
           Inl e \<Rightarrow> Inl e
         | Inr found \<Rightarrow>
             (let chosen = (case found of
                              Some t \<Rightarrow> Some t
                            | None \<Rightarrow>
                                (case defaultServer cfg of
                                   Some d \<Rightarrow> if d \<noteq> [] then Some (Named d) else None
                                 | None \<Rightarrow> None))
              in case chosen of
                   None \<Rightarrow>
                     Inl (RoutingError ''No route found''
                            ''No matching routing rule found and no default server configured'')
                 | Some t \<Rightarrow>
                     (case getServerUrl r t of
                        Inl e \<Rightarrow> Inl e
                      | Inr address \<Rightarrow> Inr (t, address))))"

text \<open>
  \<^verbatim>\<open>routeRequest\<close>: the \<^verbatim>\<open>catch\<close> block turns a \<^verbatim>\<open>RoutingError\<close> into a failure result
  that carries the error's message. The request itself is only logged.
\<close>

definition routeRequest ::
  "Router \<Rightarrow> MCPRequest \<Rightarrow> string option \<Rightarrow> (string \<times> string) list option \<Rightarrow> RoutingResult" where
  "routeRequest r request requestPath headers =
     (case resolveRoute r requestPath headers of
        Inr (t, address) \<Rightarrow>
          \<lparr>serverName = t, serverUrl = address, success = True, error = None\<rparr>
      | Inl e \<Rightarrow>
          \<lparr>serverName = Named [], serverUrl = Some [], success = False,
           error = Some (routingErrorMessage e)\<rparr>)"

section \<open>ResponseAggregator (response-aggregator.ts)\<close>

subsection \<open>Values in template strings\<close>

fun joinWith :: "string \<Rightarrow> string list \<Rightarrow> string" where
  "joinWith sep [] = []"
| "joinWith sep [x] = x"
| "joinWith sep (x # y # ys) = x @ sep @ joinWith sep (y # ys)"

text \<open>
  \<^verbatim>\<open>String(v)\<close>, which a template string applies to what it embeds; \<open>None\<close> when the
  conversion throws. An array is joined with commas, \<^verbatim>\<open>null\<close> and \<^verbatim>\<open>undefined\<close> among
  its elements giving the empty text. An object is \<^verbatim>\<open>[object Object]\<close> by the
  \<^verbatim>\<open>toString\<close> it inherits; an own property of that name, which in a JSON document is
  never a function, leaves no way to a primitive, and the conversion throws the
  \<^verbatim>\<open>TypeError\<close> of the message \<open>cannotConvert\<close>. A number is printed in full, as
  JavaScript does below \<open>10\<^sup>2\<^sup>1\<close>.
\<close>

fun jsToString :: "jsval \<Rightarrow> string option" where
  "jsToString JUndefined = Some ''undefined''"
| "jsToString JNull = Some ''null''"
| "jsToString (JBool b) = Some (if b then ''true'' else ''false'')"
| "jsToString (JNum n) = Some (if n < 0 then ''-'' @ decimal (nat (- n)) else decimal (nat n))"
| "jsToString (JStr s) = Some s"
| "jsToString (JArr xs) =
     map_option (joinWith '','')
       (those (map (\<lambda>x. if x = JNull \<or> x = JUndefined then Some [] else jsToString x) xs))"
| "jsToString (JObj kvs) =
     (if ''toString'' \<in> set (map fst kvs) then None else Some ''[object Object]'')"

definition cannotConvert :: string where
  "cannotConvert = ''Cannot convert object to primitive value''"

subsection \<open>Conflict resolution\<close>

text \<open>
  The interface \<^verbatim>\<open>MCPMethod\<close> types \<open>name\<close> and \<open>description\<close> as strings, but a method
  built from a backend's reply carries whatever value the reply had there, so both
  fields are values.
\<close>

record MCPMethod =
  name :: jsval
  description :: jsval
  inputSchema :: jsval

datatype ConflictResolution = Prefix | Suffix | KeepFirst | KeepLast

text \<open>
  \<open>methodMap\<close> is a JavaScript \<^verbatim>\<open>Map\<close>: it keeps its keys in the order of their first
  insertion, and \<^verbatim>\<open>set\<close> on a key that is present replaces the value in place. Two
  primitive keys are the same key when they are the same value. An array or an object
  is a key by identity; the names that reach the map are each a value of their own,
  parsed from a reply, so such a key is never found again.
\<close>

type_synonym methodMap = "(jsval \<times> MCPMethod) list"

definition mapHas :: "methodMap \<Rightarrow> jsval \<Rightarrow> bool" where
  "mapHas m k =
     (case k of
        JArr xs \<Rightarrow> False
      | JObj kvs \<Rightarrow> False
      | _ \<Rightarrow> k \<in> set (map fst m))"

definition mapSet :: "jsval \<Rightarrow> MCPMethod \<Rightarrow> methodMap \<Rightarrow> methodMap" where
  "mapSet k v m =
     (if mapHas m k then map (\<lambda>(k', v'). if k' = k then (k', v) else (k', v')) m
      else m @ [(k, v)])"

text \<open>The template \<^verbatim>\<open>`${base}_${counter}`\<close>, \<open>base\<close> being the text of what it embeds.\<close>

definition suffixed :: "string \<Rightarrow> nat \<Rightarrow> string" where
  "suffixed base counter = base @ ''_'' @ decimal counter"

definition keyLength :: "jsval \<Rightarrow> nat" where
  "keyLength k = (case k of JStr s \<Rightarrow> length s | _ \<Rightarrow> 0)"

lemma decimal_bound: "n < 10 ^ length (decimal n)"
proof (induction n rule: decimal.induct)
  case (1 n)
  show ?case
  proof (cases "n < 10")
    case True
    then show ?thesis by (simp add: decimal.simps [of n])
  next
    case False
    with 1 have ih: "n div 10 < 10 ^ length (decimal (n div 10))" by simp
    have "n < 10 * (n div 10 + 1)" by simp
    also have "\<dots> \<le> 10 * 10 ^ length (decimal (n div 10))" using ih by simp
    finally show ?thesis using False by (simp add: decimal.simps [of n])
  qed
qed

lemma suffixed_bound:
  assumes "JStr (suffixed base c) \<in> set keys"
  shows "c < 10 ^ sum_list (map keyLength keys)"
proof -
  have "keyLength (JStr (suffixed base c)) \<le> sum_list (map keyLength keys)"
    using assms by (simp add: member_le_sum_list)
  then have "length (decimal c) \<le> sum_list (map keyLength keys)"
    by (simp add: suffixed_def keyLength_def)
  then have "(10::nat) ^ length (decimal c) \<le> 10 ^ sum_list (map keyLength keys)"
    by (simp add: power_increasing)
  with decimal_bound [of c] show ?thesis by linarith
qed

lemma mapHas_text: "mapHas m (JStr s) = (JStr s \<in> set (map fst m))"
  by (simp add: mapHas_def)

text \<open>
  \<^verbatim>\<open>while (methodMap.has(`${originalName}_${counter}`)) counter++\<close>, entered at
  \<open>counter\<close>, \<open>originalName\<close> being the text of the name. The map is finite, so the scan
  ends.
\<close>

function nextSuffix :: "methodMap \<Rightarrow> string \<Rightarrow> nat \<Rightarrow> nat" where
  "nextSuffix m originalName counter =
     (if mapHas m (JStr (suffixed originalName counter))
      then nextSuffix m originalName (counter + 1) else counter)"
  by pat_completeness auto
termination
proof (relation "measure (\<lambda>(m, originalName, counter).
         10 ^ sum_list (map keyLength (map fst m)) - counter)")
  show "wf (measure (\<lambda>(m :: methodMap, originalName :: string, counter).
         10 ^ sum_list (map keyLength (map fst m)) - counter))"
    by simp
next
  fix m :: methodMap and originalName counter
  assume "mapHas m (JStr (suffixed originalName counter))"
  then have "JStr (suffixed originalName counter) \<in> set (map fst m)"
    by (simp only: mapHas_text)
  then have "counter < 10 ^ sum_list (map keyLength (map fst m))"
    by (rule suffixed_bound)
  then show "((m, originalName, counter + 1), (m, originalName, counter))
      \<in> measure (\<lambda>(m, originalName, counter). 10 ^ sum_list (map keyLength (map fst m)) - counter)"
    by simp
qed

declare nextSuffix.simps [simp del]

text \<open>
  The last loop of the body,
  \<^verbatim>\<open>while (methodMap.has(uniqueName) && uniqueName !== originalName)
       { uniqueName = `${finalName}_${counter}`; counter++ }\<close>,
  starting from \<^verbatim>\<open>uniqueName = finalName\<close> and \<^verbatim>\<open>counter = 1\<close>: \<open>uniqueFrom\<close> is the loop
  once its first test has passed, on the text of \<open>finalName\<close>, and \<open>ensureUnique\<close> makes
  that first test.
\<close>

function uniqueFrom :: "methodMap \<Rightarrow> jsval \<Rightarrow> string \<Rightarrow> nat \<Rightarrow> string" where
  "uniqueFrom m originalName finalName counter =
     (if mapHas m (JStr (suffixed finalName counter))
         \<and> JStr (suffixed finalName counter) \<noteq> originalName
      then uniqueFrom m originalName finalName (counter + 1)
      else suffixed finalName counter)"
  by pat_completeness auto
termination
proof (relation "measure (\<lambda>(m, originalName, finalName, counter).
         10 ^ sum_list (map keyLength (map fst m)) - counter)")
  show "wf (measure (\<lambda>(m :: methodMap, originalName :: jsval, finalName :: string, counter).
         10 ^ sum_list (map keyLength (map fst m)) - counter))"
    by simp
next
  fix m :: methodMap and originalName :: jsval and finalName counter
  assume "mapHas m (JStr (suffixed finalName counter))
            \<and> JStr (suffixed finalName counter) \<noteq> originalName"
  then have "JStr (suffixed finalName counter) \<in> set (map fst m)"
    by (simp only: mapHas_text)
  then have "counter < 10 ^ sum_list (map keyLength (map fst m))"
    by (rule suffixed_bound)
  then show "((m, originalName, finalName, counter + 1), (m, originalName, finalName, counter))
      \<in> measure (\<lambda>(m, originalName, finalName, counter).
           10 ^ sum_list (map keyLength (map fst m)) - counter)"
    by simp
qed

declare uniqueFrom.simps [simp del]

definition ensureUnique :: "methodMap \<Rightarrow> jsval \<Rightarrow> jsval \<Rightarrow> string + jsval" where
  "ensureUnique m originalName finalName =
     (if mapHas m finalName \<and> finalName \<noteq> originalName
      then (case jsToString finalName of
              None \<Rightarrow> Inl cannotConvert
            | Some text \<Rightarrow> Inr (JStr (uniqueFrom m originalName text 1)))
      else Inr finalName)"

text \<open>
  \<^verbatim>\<open>description.match(/from (\w+) server/)\<close>: the first place where \<^verbatim>\<open>"from "\<close> is followed
  by a run of word characters and then by \<^verbatim>\<open>" server"\<close>; the run is the captured group.
  A space is not a word character, so the run is always the longest one.
\<close>

definition wordChar :: "char \<Rightarrow> bool" where
  "wordChar c =
     (let n = (of_char c :: nat)
      in (48 \<le> n \<and> n \<le> 57) \<or> (65 \<le> n \<and> n \<le> 90) \<or> (97 \<le> n \<and> n \<le> 122) \<or> n = 95)"

definition matchHere :: "string \<Rightarrow> string option" where
  "matchHere s =
     (if startsWith s ''from '' then
        (let rest = drop 5 s; w = takeWhile wordChar rest
         in if w \<noteq> [] \<and> startsWith (dropWhile wordChar rest) '' server'' then Some w else None)
      else None)"

primrec serverMatch :: "string \<Rightarrow> string option" where
  "serverMatch [] = None"
| "serverMatch (c # cs) =
     (case matchHere (c # cs) of Some w \<Rightarrow> Some w | None \<Rightarrow> serverMatch cs)"

text \<open>
  The \<^verbatim>\<open>prefix\<close> case of the switch; \<open>Inl\<close> is the message of the \<^verbatim>\<open>TypeError\<close> it throws.
  \<^verbatim>\<open>originalName.split\<close> is a function only when the name is a string, and
  \<^verbatim>\<open>method.description?.match\<close>, which is not read when the description is \<^verbatim>\<open>null\<close> or
  \<^verbatim>\<open>undefined\<close>, only when the description is one.
\<close>

definition inferredPrefix :: "jsval \<Rightarrow> string + string" where
  "inferredPrefix d =
     (case d of
        JUndefined \<Rightarrow> Inr ''unknown''
      | JNull \<Rightarrow> Inr ''unknown''
      | JStr text \<Rightarrow> Inr (case serverMatch text of Some w \<Rightarrow> w | None \<Rightarrow> ''unknown'')
      | _ \<Rightarrow> Inl ''method.description?.match is not a function'')"

definition prefixedName :: "MCPMethod \<Rightarrow> string + jsval" where
  "prefixedName method =
     (case name method of
        JStr originalName \<Rightarrow>
          if CHR ''/'' \<in> set originalName then Inr (JStr originalName)
          else (case inferredPrefix (description method) of
                  Inl e \<Rightarrow> Inl e
                | Inr inferred \<Rightarrow> Inr (JStr (inferred @ ''/'' @ originalName)))
      | JUndefined \<Rightarrow> Inl ''Cannot read properties of undefined (reading 'split')''
      | JNull \<Rightarrow> Inl ''Cannot read properties of null (reading 'split')''
      | _ \<Rightarrow> Inl ''originalName.split is not a function'')"

text \<open>
  The name the \<^verbatim>\<open>switch\<close> leaves in \<^verbatim>\<open>finalName\<close> for a method whose name is taken, under
  a strategy other than \<^verbatim>\<open>keep-first\<close>.
\<close>

definition renamed :: "ConflictResolution \<Rightarrow> methodMap \<Rightarrow> MCPMethod \<Rightarrow> string + jsval" where
  "renamed strat m method =
     (case strat of
        Prefix \<Rightarrow> prefixedName method
      | Suffix \<Rightarrow>
          (case jsToString (name method) of
             None \<Rightarrow> Inl cannotConvert
           | Some originalName \<Rightarrow>
               Inr (JStr (suffixed originalName (nextSuffix m originalName 1))))
      | KeepFirst \<Rightarrow> Inr (name method)
      | KeepLast \<Rightarrow> Inr (name method))"

text \<open>
  One turn of \<^verbatim>\<open>for (const method of methods)\<close>: the map after it, or the message of
  what the turn throws. Under \<^verbatim>\<open>keep-first\<close> a method whose name is taken is skipped by
  \<^verbatim>\<open>continue\<close>.
\<close>

definition resolveStep ::
  "ConflictResolution \<Rightarrow> methodMap \<Rightarrow> MCPMethod \<Rightarrow> string + methodMap" where
  "resolveStep strat m method =
     (let originalName = name method in
      if mapHas m originalName \<and> strat = KeepFirst then Inr m
      else
        (case (if mapHas m originalName then renamed strat m method else Inr originalName) of
           Inl e \<Rightarrow> Inl e
         | Inr finalName \<Rightarrow>
             (case ensureUnique m originalName finalName of
                Inl e \<Rightarrow> Inl e
              | Inr uniqueName \<Rightarrow> Inr (mapSet uniqueName (method\<lparr>name := uniqueName\<rparr>) m))))"

text \<open>The loop from a given map on: it ends at the first turn that throws.\<close>

fun resolveFrom ::
  "ConflictResolution \<Rightarrow> methodMap \<Rightarrow> MCPMethod list \<Rightarrow> string + methodMap" where
  "resolveFrom strat m [] = Inr m"
| "resolveFrom strat m (method # methods) =
     (case resolveStep strat m method of
        Inl e \<Rightarrow> Inl e
      | Inr m' \<Rightarrow> resolveFrom strat m' methods)"

definition resolveMethodConflicts ::
  "MCPMethod list \<Rightarrow> ConflictResolution \<Rightarrow> string + MCPMethod list" where
  "resolveMethodConflicts methods strat =
     (case resolveFrom strat [] methods of
        Inl e \<Rightarrow> Inl e
      | Inr m \<Rightarrow> Inr (map snd m))"

subsection \<open>Querying one backend\<close>

definition isArray :: "jsval \<Rightarrow> bool" where
  "isArray v = (case v of JArr xs \<Rightarrow> True | _ \<Rightarrow> False)"

definition elements :: "jsval \<Rightarrow> jsval list" where
  "elements v = (case v of JArr xs \<Rightarrow> xs | _ \<Rightarrow> [])"

text \<open>The object literal \<^verbatim>\<open>{ type: "object", properties: {}, required: [] }\<close>.\<close>

definition defaultSchema :: jsval where
  "defaultSchema =
     JObj [(''type'', JStr ''object''), (''properties'', JObj []), (''required'', JArr [])]"

text \<open>
  The function mapped over the tools; \<open>Inl\<close> is the message of the \<^verbatim>\<open>TypeError\<close> it
  throws. Reading \<^verbatim>\<open>tool.name\<close> of \<^verbatim>\<open>null\<close> or \<^verbatim>\<open>undefined\<close> throws. A truthy
  \<^verbatim>\<open>tool.name\<close> or \<^verbatim>\<open>tool.description\<close> is kept as the value it is, string or not; the
  template that stands in for a falsy description embeds the name as text.
\<close>

definition toMethod :: "string \<Rightarrow> jsval \<Rightarrow> string + MCPMethod" where
  "toMethod sName tool =
     (if tool = JNull then Inl ''Cannot read properties of null (reading 'name')''
      else if tool = JUndefined then Inl ''Cannot read properties of undefined (reading 'name')''
      else
        let toolName = getProp tool ''name'';
            toolDescription = getProp tool ''description'';
            toolSchema =
              (if truthy (getProp tool ''inputSchema'') then getProp tool ''inputSchema''
               else if truthy (getProp tool ''parameters'') then getProp tool ''parameters''
               else if truthy (getProp tool ''schema'') then getProp tool ''schema''
               else defaultSchema)
        in if truthy toolDescription then
             Inr \<lparr>name = (if truthy toolName then toolName else JStr ''unknown''),
                  description = toolDescription, inputSchema = toolSchema\<rparr>
           else
             (case (if truthy toolName then jsToString toolName else Some ''Tool'') of
                None \<Rightarrow> Inl cannotConvert
              | Some text \<Rightarrow>
                  Inr \<lparr>name = (if truthy toolName then toolName else JStr ''unknown''),
                       description = JStr (text @ '' from '' @ sName @ '' server''),
                       inputSchema = toolSchema\<rparr>))"

text \<open>\<^verbatim>\<open>tools.map(...)\<close>: it stops at the first entry that throws.\<close>

fun mapTools :: "string \<Rightarrow> jsval list \<Rightarrow> string + MCPMethod list" where
  "mapTools sName [] = Inr []"
| "mapTools sName (tool # tools) =
     (case toMethod sName tool of
        Inl e \<Rightarrow> Inl e
      | Inr m \<Rightarrow>
          (case mapTools sName tools of
             Inl e \<Rightarrow> Inl e
           | Inr ms \<Rightarrow> Inr (m # ms)))"

definition extractMethodsFromResponse :: "jsval \<Rightarrow> string \<Rightarrow> string + MCPMethod list" where
  "extractMethodsFromResponse resp sName =
     (if \<not> truthy (getProp resp ''result'') then Inr []
      else
        let result = getProp resp ''result'';
            tools =
              (if truthy (getProp result ''tools'') \<and> isArray (getProp result ''tools'')
               then elements (getProp result ''tools'')
               else if truthy (getProp result ''methods'') \<and> isArray (getProp result ''methods'')
               then elements (getProp result ''methods'')
               else if isArray result then elements result
               else [])
        in mapTools sName tools)"

record ServerMethodResult =
  resultServerName :: string
  resultSuccess :: bool
  resultMethods :: "MCPMethod list option"
  resultError :: "string option"

text \<open>
  The aggregator is handed its forwarder. \<open>fwd sUrl request options\<close> is what
  \<^verbatim>\<open>forwardRequest(serverUrl, request, { timeout })\<close> does: it resolves with an envelope
  (\<open>Inr\<close>) or rejects with an error of that message (\<open>Inl\<close>). \<open>now\<close> is the reading of
  \<^verbatim>\<open>Date.now()\<close> that goes into the request id.
\<close>

definition methodsRequest :: "string \<Rightarrow> nat \<Rightarrow> string \<Rightarrow> MCPRequest" where
  "methodsRequest sName now methodName =
     \<lparr>reqMethod = methodName, reqParams = JObj [],
      reqId = JStr (''get-methods-'' @ sName @ ''-'' @ decimal now), reqJsonrpc = ''2.0''\<rparr>"

definition timeoutOnly :: "nat \<Rightarrow> ForwardingOptions" where
  "timeoutOnly t = \<lparr>timeout = Some t, maxRetries = None, retryDelay = None\<rparr>"

text \<open>
  The loop over the method names keeps the last envelope received and the last error
  caught, and stops at the first envelope with a truthy \<open>result\<close>. Reading \<open>result\<close> of
  \<^verbatim>\<open>null\<close> or \<^verbatim>\<open>undefined\<close> throws inside the \<^verbatim>\<open>try\<close> block, after the assignment.
\<close>

fun aliasLoop ::
  "(string \<Rightarrow> MCPRequest \<Rightarrow> ForwardingOptions \<Rightarrow> string + jsval) \<Rightarrow> nat \<Rightarrow> string \<Rightarrow> string \<Rightarrow> nat
     \<Rightarrow> string list \<Rightarrow> jsval \<Rightarrow> string option \<Rightarrow> jsval \<times> string option" where
  "aliasLoop fwd now sName sUrl t [] resp lastError = (resp, lastError)"
| "aliasLoop fwd now sName sUrl t (methodName # rest) resp lastError =
     (case fwd sUrl (methodsRequest sName now methodName) (timeoutOnly t) of
        Inl e \<Rightarrow> aliasLoop fwd now sName sUrl t rest resp (Some e)
      | Inr r \<Rightarrow>
          if r = JNull then
            aliasLoop fwd now sName sUrl t rest r
              (Some ''Cannot read properties of null (reading 'result')'')
          else if r = JUndefined then
            aliasLoop fwd now sName sUrl t rest r
              (Some ''Cannot read properties of undefined (reading 'result')'')
          else if truthy (getProp r ''result'') then (r, lastError)
          else aliasLoop fwd now sName sUrl t rest r lastError)"

definition methodNames :: "string list" where
  "methodNames = [''tools/list'', ''get_methods'', ''list_tools'']"

text \<open>
  \<^verbatim>\<open>getMethodsFromServer(serverName, serverUrl, timeout)\<close>; the response times it measures
  are left out of the result.
\<close>

definition getMethodsFromServer ::
  "(string \<Rightarrow> MCPRequest \<Rightarrow> ForwardingOptions \<Rightarrow> string + jsval) \<Rightarrow> nat \<Rightarrow> string \<Rightarrow> string \<Rightarrow> nat
     \<Rightarrow> ServerMethodResult" where
  "getMethodsFromServer fwd now sName sUrl t =
     (let (resp, lastError) = aliasLoop fwd now sName sUrl t methodNames JNull None;
          failure = (\<lambda>msg. \<lparr>resultServerName = sName, resultSuccess = False,
                             resultMethods = None, resultError = Some msg\<rparr>)
      in if \<not> truthy resp \<or> truthy (getProp resp ''error'')
         then failure (case lastError of
                         Some e \<Rightarrow> e
                       | None \<Rightarrow> ''No valid response from '' @ sName)
         else (case extractMethodsFromResponse resp sName of
                 Inl e \<Rightarrow> failure e
               | Inr methods \<Rightarrow>
                   \<lparr>resultServerName = sName, resultSuccess = True,
                    resultMethods = Some methods, resultError = None\<rparr>))"

subsection \<open>Aggregation\<close>

record AggregationOptions =
  aggregationTimeout :: "nat option"
  includeServerInfo :: "bool option"
  conflictResolution :: "ConflictResolution option"
  continueOnPartialFailure :: "bool option"

record AggregationOpts =
  optAggregationTimeout :: nat
  optIncludeServerInfo :: bool
  optConflictResolution :: ConflictResolution
  optContinueOnPartialFailure :: bool

definition defaultAggregationOptions :: AggregationOpts where
  "defaultAggregationOptions =
     \<lparr>optAggregationTimeout = 30000, optIncludeServerInfo = True,
      optConflictResolution = Prefix, optContinueOnPartialFailure = True\<rparr>"

definition mergeAggregationOptions :: "AggregationOpts \<Rightarrow> AggregationOptions \<Rightarrow> AggregationOpts" where
  "mergeAggregationOptions d options =
     \<lparr>optAggregationTimeout =
        (case aggregationTimeout options of Some t \<Rightarrow> t | None \<Rightarrow> optAggregationTimeout d),
      optIncludeServerInfo =
        (case includeServerInfo options of Some b \<Rightarrow> b | None \<Rightarrow> optIncludeServerInfo d),
      optConflictResolution =
        (case conflictResolution options of Some c \<Rightarrow> c | None \<Rightarrow> optConflictResolution d),
      optContinueOnPartialFailure =
        (case continueOnPartialFailure options of
           Some b \<Rightarrow> b | None \<Rightarrow> optContinueOnPartialFailure d)\<rparr>"

text \<open>The objects the envelope carries, as JavaScript values.\<close>

definition methodToJs :: "MCPMethod \<Rightarrow> jsval" where
  "methodToJs m =
     JObj [(''name'', name m), (''description'', description m),
           (''inputSchema'', inputSchema m)]"

definition serverResultToJs :: "ServerMethodResult \<Rightarrow> jsval" where
  "serverResultToJs r =
     (if resultSuccess r
      then JObj [(''serverName'', JStr (resultServerName r)), (''success'', JBool True),
                 (''methods'', JArr (map methodToJs
                                       (case resultMethods r of Some ms \<Rightarrow> ms | None \<Rightarrow> [])))]
      else JObj [(''serverName'', JStr (resultServerName r)), (''success'', JBool False),
                 (''error'', (case resultError r of Some e \<Rightarrow> JStr e | None \<Rightarrow> JUndefined))])"

text \<open>
  The per-backend results of a round: every promise of \<^verbatim>\<open>Promise.allSettled\<close> is fulfilled,
  since \<^verbatim>\<open>getMethodsFromServer\<close> catches whatever is thrown.
\<close>

definition serverResultsOf ::
  "(string \<Rightarrow> MCPRequest \<Rightarrow> ForwardingOptions \<Rightarrow> string + jsval) \<Rightarrow> nat \<Rightarrow> nat
     \<Rightarrow> (string \<times> string) list \<Rightarrow> ServerMethodResult list" where
  "serverResultsOf fwd now t serverUrls =
     map (\<lambda>(sName, sUrl). getMethodsFromServer fwd now sName sUrl t) serverUrls"

definition allMethodsOf :: "ServerMethodResult list \<Rightarrow> MCPMethod list" where
  "allMethodsOf serverResults =
     concat (map (\<lambda>r. if resultSuccess r
                       then (case resultMethods r of Some ms \<Rightarrow> ms | None \<Rightarrow> [])
                       else [])
               serverResults)"

text \<open>
  \<^verbatim>\<open>aggregateMethods(serverUrls, options)\<close>; \<open>serverUrls\<close> lists the entries of the record
  in order. The aggregation time is left out of the statistics. The promise is fulfilled
  with an envelope (\<open>Inr\<close>), or rejected with what \<^verbatim>\<open>resolveMethodConflicts\<close> throws
  (\<open>Inl\<close>, the message).
\<close>

definition aggregateMethods ::
  "(string \<Rightarrow> MCPRequest \<Rightarrow> ForwardingOptions \<Rightarrow> string + jsval) \<Rightarrow> nat
     \<Rightarrow> (string \<times> string) list \<Rightarrow> AggregationOptions \<Rightarrow> string + jsval" where
  "aggregateMethods fwd now serverUrls options =
     (let opts = mergeAggregationOptions defaultAggregationOptions options;
          serverResults = serverResultsOf fwd now (optAggregationTimeout opts) serverUrls;
          allMethods = allMethodsOf serverResults;
          successfulResults = filter resultSuccess serverResults
      in if length successfulResults = 0 \<and> \<not> optContinueOnPartialFailure opts
         then Inr (createMCPErrorResponse (- 32603) ''All downstream servers failed to respond''
                     JUndefined
                     (JObj [(''serverResults'', JArr (map serverResultToJs serverResults))]))
         else
           (case resolveMethodConflicts allMethods (optConflictResolution opts) of
              Inl e \<Rightarrow> Inl e
            | Inr resolvedMethods \<Rightarrow>
                let methodsEntry = [(''methods'', JArr (map methodToJs resolvedMethods))];
                    infoEntries =
                      (if optIncludeServerInfo opts
                       then [(''serverResults'', JArr (map serverResultToJs serverResults)),
                             (''aggregationStats'',
                                JObj [(''totalServers'', JNum (int (length serverUrls))),
                                      (''successfulServers'', JNum (int (length successfulResults))),
                                      (''totalMethods'', JNum (int (length resolvedMethods)))])]
                       else [])
                in Inr (createMCPResponse (JObj (methodsEntry @ infoEntries)) JUndefined)))"

text \<open>
  \<^verbatim>\<open>handlePartialFailures(serverResults, continueOnFailure)\<close>: whether to go on, and the
  error message when not.
\<close>

definition handlePartialFailures :: "ServerMethodResult list \<Rightarrow> bool \<Rightarrow> bool \<times> string option" where
  "handlePartialFailures serverResults continueOnFailure =
     (let failedServers = filter (\<lambda>r. \<not> resultSuccess r) serverResults;
          successfulServers = filter resultSuccess serverResults
      in if length failedServers = 0 then (True, None)
         else if length successfulServers = 0 then (False, Some ''All servers failed to respond'')
         else if \<not> continueOnFailure \<and> length failedServers > 0
         then (False,
               Some (decimal (length failedServers) @ '' servers failed: ''
                       @ joinWith '', '' (map resultServerName failedServers)))
         else (True, None))"

section \<open>ErrorHandler: redaction (error-handler.ts)\<close>

definition sensitiveKeys :: "string list" where
  "sensitiveKeys =
     [''password'', ''token'', ''key'', ''secret'', ''auth'', ''credential'',
      ''api_key'', ''access_token'', ''refresh_token'', ''authorization'']"

definition isSensitive :: "string \<Rightarrow> bool" where
  "isSensitive key =
     list_ex (\<lambda>sensitive. includesStr (toLowerCase key) (toLowerCase sensitive)) sensitiveKeys"

definition redacted :: jsval where
  "redacted = JStr ''[REDACTED]''"

text \<open>
  \<^verbatim>\<open>sanitizeErrorData(data)\<close>. The copy \<^verbatim>\<open>{ ...data }\<close> of an object has the object's own
  properties; the copy of an array is an object whose keys are the indices, so
  \<open>sanitizeItems i\<close> walks the elements from index \<open>i\<close> as \<open>sanitizeProps\<close> walks the
  properties. Each property goes through the body of the \<^verbatim>\<open>for ... in\<close> loop.
\<close>

fun sanitizeErrorData :: "jsval \<Rightarrow> jsval"
  and sanitizeProps :: "(string \<times> jsval) list \<Rightarrow> (string \<times> jsval) list"
  and sanitizeItems :: "nat \<Rightarrow> jsval list \<Rightarrow> (string \<times> jsval) list" where
  "sanitizeErrorData (JObj kvs) = JObj (sanitizeProps kvs)"
| "sanitizeErrorData (JArr xs) = JObj (sanitizeItems 0 xs)"
| "sanitizeErrorData JUndefined = JUndefined"
| "sanitizeErrorData JNull = JNull"
| "sanitizeErrorData (JBool b) = JBool b"
| "sanitizeErrorData (JNum n) = JNum n"
| "sanitizeErrorData (JStr s) = JStr s"
| "sanitizeProps [] = []"
| "sanitizeProps ((key, v) # kvs) =
     (key, if isSensitive key then redacted
           else if typeof v = ''object'' then sanitizeErrorData v
           else v) # sanitizeProps kvs"
| "sanitizeItems i [] = []"
| "sanitizeItems i (v # vs) =
     (decimal i, if isSensitive (decimal i) then redacted
                 else if typeof v = ''object'' then sanitizeErrorData v
                 else v) # sanitizeItems (i + 1) vs"

section \<open>Gateway (proxy-server.ts)\<close>

record ProxyConfig =
  configServers :: "(string \<times> ServerConfig) list"
  routing :: RoutingConfig

definition noOptions :: ForwardingOptions where
  "noOptions = \<lparr>timeout = None, maxRetries = None, retryDelay = None\<rparr>"

definition noAggregationOptions :: AggregationOptions where
  "noAggregationOptions =
     \<lparr>aggregationTimeout = None, includeServerInfo = None,
      conflictResolution = None, continueOnPartialFailure = None\<rparr>"

text \<open>
  The gateway's forwarder as the aggregator sees it: \<^verbatim>\<open>forwardRequest\<close> returns an
  envelope and never rejects. \<open>net sUrl methodName n\<close> is what the \<open>n\<close>-th post of a
  request with that method name to that address does, and \<open>elapsed\<close> the duration the
  forwarder reads off the clock.
\<close>

definition gatewayForwarder ::
  "(string \<Rightarrow> string \<Rightarrow> nat \<Rightarrow> http_outcome) \<Rightarrow> nat
     \<Rightarrow> string \<Rightarrow> MCPRequest \<Rightarrow> ForwardingOptions \<Rightarrow> string + jsval" where
  "gatewayForwarder net elapsed sUrl request options =
     Inr (response (forwardRequest sUrl request options (net sUrl (reqMethod request)) elapsed))"

text \<open>
  The record of addresses that \<^verbatim>\<open>handleRequest\<close> builds for the aggregator, by
  \<^verbatim>\<open>serverUrls[name] = config.url\<close> for each entry of the servers. An assignment to
  \<^verbatim>\<open>__proto__\<close> with a string on its right sets nothing, so a server of that name gets
  no entry.
\<close>

definition serverUrlsOf :: "(string \<times> ServerConfig) list \<Rightarrow> (string \<times> string) list" where
  "serverUrlsOf entries =
     map (\<lambda>(sName, sc). (sName, url sc)) (filter (\<lambda>(sName, sc). sName \<noteq> ''__proto__'') entries)"

text \<open>
  \<^verbatim>\<open>forwardRequest\<close> handed \<^verbatim>\<open>undefined\<close> for its address, as the gateway does when
  routing found the server on \<^verbatim>\<open>Object.prototype\<close>: the loop is the same, the messages
  render the address as the text \<^verbatim>\<open>undefined\<close>, and the data of the error envelope
  carries \<^verbatim>\<open>undefined\<close> itself.
\<close>

definition forwardRequestNoAddress ::
  "MCPRequest \<Rightarrow> ForwardingOptions \<Rightarrow> (nat \<Rightarrow> http_outcome) \<Rightarrow> nat \<Rightarrow> ForwardResult" where
  "forwardRequestNoAddress request options post totalDuration =
     (let opts = mergeOptions defaultOptions options
      in case forwardLoop post ''undefined'' opts 1 None [] of
           Returned data n slept \<Rightarrow> \<lparr>response = data, attempts = n, delays = slept\<rparr>
         | Failed lastError n slept \<Rightarrow>
             \<lparr>response =
                createMCPErrorResponse (- 32603)
                  (''Failed to forward request to undefined: '' @ lastErrorMessage lastError)
                  (reqId request)
                  (JObj [(''serverUrl'', JUndefined),
                         (''attempts'', JNum (int (optMaxRetries opts))),
                         (''totalDuration'', JStr (decimal totalDuration @ ''ms''))]),
              attempts = n, delays = slept\<rparr>)"

text \<open>
  \<^verbatim>\<open>handleRequest(request, requestPath, headers)\<close>. Inside its \<^verbatim>\<open>try\<close> block only the
  aggregation can throw, and the \<^verbatim>\<open>catch\<close> block turns the message into an error
  envelope. \<open>net\<close> is asked under the text \<^verbatim>\<open>undefined\<close> for what a post without an
  address does.
\<close>

definition handleRequest ::
  "ProxyConfig \<Rightarrow> (string \<Rightarrow> string \<Rightarrow> nat \<Rightarrow> http_outcome) \<Rightarrow> nat \<Rightarrow> nat
     \<Rightarrow> MCPRequest \<Rightarrow> string option \<Rightarrow> (string \<times> string) list option \<Rightarrow> jsval" where
  "handleRequest cfg net now elapsed request requestPath headers =
     (if reqMethod request = ''get_methods'' then
        (case aggregateMethods (gatewayForwarder net elapsed) now
                (serverUrlsOf (configServers cfg)) noAggregationOptions of
           Inr envelope \<Rightarrow> envelope
         | Inl msg \<Rightarrow> createMCPErrorResponse (- 32603) msg (reqId request) JUndefined)
      else
        let routingResult =
              routeRequest \<lparr>config = routing cfg, servers = configServers cfg\<rparr>
                request requestPath headers
        in if \<not> success routingResult then
             createMCPErrorResponse (- 32601)
               (case error routingResult of
                  Some e \<Rightarrow> if e = [] then ''No route found for request'' else e
                | None \<Rightarrow> ''No route found for request'')
               (reqId request)
               (JObj [(''requestPath'',
                         (case requestPath of Some path \<Rightarrow> JStr path | None \<Rightarrow> JUndefined)),
                      (''availableServers'', JArr (map (\<lambda>(sName, sc). JStr sName) (configServers cfg)))])
           else
             (case serverUrl routingResult of
                Some address \<Rightarrow>
                  response (forwardRequest address request noOptions
                              (net address (reqMethod request)) elapsed)
              | None \<Rightarrow>
                  response (forwardRequestNoAddress request noOptions
                              (net ''undefined'' (reqMethod request)) elapsed)))"

section \<open>Properties of the forwarder\<close>

text \<open>The number of posts a run of the loop has made when it ends.\<close>

fun exitAttempts :: "loop_exit \<Rightarrow> nat" where
  "exitAttempts (Returned d n sl) = n"
| "exitAttempts (Failed e n sl) = n"

text \<open>
  The outcomes of a post that the retry policy tells apart: a reply with a status from
  400 to 499, and the failures to be retried, which are a reply with a status of 500 or
  more, an Axios error with no reply (the connection failed or the attempt timed out),
  and any other error thrown by the post.
\<close>

definition clientErrorReply :: "http_outcome \<Rightarrow> bool" where
  "clientErrorReply outcome =
     (case outcome of
        Rejected (AxiosError (Some status) msg) \<Rightarrow> 400 \<le> status \<and> status < 500
      | _ \<Rightarrow> False)"

definition retryableFailure :: "http_outcome \<Rightarrow> bool" where
  "retryableFailure outcome =
     (case outcome of
        Rejected (AxiosError (Some status) msg) \<Rightarrow> 500 \<le> status
      | Rejected (AxiosError None msg) \<Rightarrow> True
      | Rejected (OtherError msg) \<Rightarrow> True
      | Resolved status data \<Rightarrow> False)"

subsection \<open>The loop, one turn at a time\<close>

lemma attempts_forwardRequest:
  "attempts (forwardRequest u rq os post d) =
     exitAttempts (forwardLoop post u (mergeOptions defaultOptions os) 1 None [])"
  by (simp add: forwardRequest_def Let_def split: loop_exit.splits)

lemma tryAttempt_clientError:
  "clientErrorReply outcome \<Longrightarrow> \<exists>e. tryAttempt u outcome = Inl e \<and> isClientError e"
  by (auto simp: clientErrorReply_def tryAttempt_def split: http_outcome.splits thrown.splits option.splits)

lemma tryAttempt_retryable:
  "retryableFailure outcome \<Longrightarrow> \<exists>e. tryAttempt u outcome = Inl e \<and> \<not> isClientError e"
  by (auto simp: retryableFailure_def tryAttempt_def split: http_outcome.splits thrown.splits option.splits)

lemma forwardLoop_done:
  "\<not> a \<le> optMaxRetries opts \<Longrightarrow> forwardLoop post u opts a le sl = Failed le (a - 1) sl"
  by (subst forwardLoop.simps) simp

lemma forwardLoop_return:
  "a \<le> optMaxRetries opts \<Longrightarrow> tryAttempt u (post a) = Inr d
     \<Longrightarrow> forwardLoop post u opts a le sl = Returned d a sl"
  by (subst forwardLoop.simps) simp

lemma forwardLoop_break:
  "a \<le> optMaxRetries opts \<Longrightarrow> tryAttempt u (post a) = Inl e \<Longrightarrow> isClientError e
     \<Longrightarrow> forwardLoop post u opts a le sl = Failed (Some e) a sl"
  by (subst forwardLoop.simps) simp

lemma forwardLoop_retry:
  "a \<le> optMaxRetries opts \<Longrightarrow> tryAttempt u (post a) = Inl e \<Longrightarrow> \<not> isClientError e
     \<Longrightarrow> forwardLoop post u opts a le sl =
           forwardLoop post u opts (a + 1) (Some e)
             (if a < optMaxRetries opts then sl @ [backoffDelay (optRetryDelay opts) a] else sl)"
  by (subst forwardLoop.simps) simp

subsection \<open>How many posts are made\<close>

lemma loop_stops_at_client_error:
  "a \<le> k \<Longrightarrow> clientErrorReply (post k) \<Longrightarrow> exitAttempts (forwardLoop post u opts a le sl) \<le> k"
proof (induction "optMaxRetries opts + 1 - a" arbitrary: a le sl)
  case 0
  then have "\<not> a \<le> optMaxRetries opts" by simp
  with 0 show ?case by (simp add: forwardLoop_done)
next
  case (Suc n)
  then have inRange: "a \<le> optMaxRetries opts" by simp
  show ?case
  proof (cases "tryAttempt u (post a)")
    case (Inr d)
    with inRange Suc.prems show ?thesis by (simp add: forwardLoop_return)
  next
    case (Inl e)
    show ?thesis
    proof (cases "isClientError e")
      case True
      with Inl inRange Suc.prems show ?thesis by (simp add: forwardLoop_break)
    next
      case False
      have "a \<noteq> k"
      proof
        assume "a = k"
        with Suc.prems tryAttempt_clientError [of "post a" u] Inl False show False by auto
      qed
      with Suc.prems have next_le: "a + 1 \<le> k" by simp
      have "n = optMaxRetries opts + 1 - (a + 1)" using Suc.hyps(2) by simp
      from Suc.hyps(1) [OF this next_le Suc.prems(2)]
      show ?thesis by (simp add: forwardLoop_retry [where post = post and a = a, OF inRange Inl False])
    qed
  qed
qed

lemma loop_reaches:
  "a \<le> optMaxRetries opts \<Longrightarrow> a \<le> exitAttempts (forwardLoop post u opts a le sl)"
proof (induction "optMaxRetries opts + 1 - a" arbitrary: a le sl)
  case 0
  then show ?case by simp
next
  case (Suc n)
  then have inRange: "a \<le> optMaxRetries opts" by simp
  show ?case
  proof (cases "tryAttempt u (post a)")
    case (Inr d)
    with inRange show ?thesis by (simp add: forwardLoop_return)
  next
    case (Inl e)
    show ?thesis
    proof (cases "isClientError e")
      case True
      with Inl inRange show ?thesis by (simp add: forwardLoop_break)
    next
      case False
      show ?thesis
      proof (cases "a < optMaxRetries opts")
        case True
        have "n = optMaxRetries opts + 1 - (a + 1)" using Suc.hyps(2) by simp
        from Suc.hyps(1) [OF this] True
        have "a + 1 \<le> exitAttempts (forwardLoop post u opts (a + 1) (Some e)
                 (sl @ [backoffDelay (optRetryDelay opts) a]))" by simp
        then show ?thesis using True by (simp add: forwardLoop_retry [where post = post and a = a, OF inRange Inl False])
      next
        case False
        with inRange have "\<not> a + 1 \<le> optMaxRetries opts" by simp
        then show ?thesis
          using False by (simp add: forwardLoop_retry [where post = post and a = a, OF inRange Inl \<open>\<not> isClientError e\<close>] forwardLoop_done)
      qed
    qed
  qed
qed

lemma loop_retries:
  "\<forall>j. a \<le> j \<and> j \<le> k \<longrightarrow> retryableFailure (post j) \<Longrightarrow> k < optMaxRetries opts \<Longrightarrow> a \<le> k + 1
     \<Longrightarrow> k + 1 \<le> exitAttempts (forwardLoop post u opts a le sl)"
proof (induction "k + 1 - a" arbitrary: a le sl)
  case 0
  then have "a = k + 1" by simp
  with 0 loop_reaches [of a opts post u le sl] show ?case by simp
next
  case (Suc n)
  then have "a \<le> k" by simp
  with Suc.prems have inRange: "a \<le> optMaxRetries opts" and retry: "retryableFailure (post a)"
    by simp_all
  from tryAttempt_retryable [OF retry, of u]
  obtain e where Inl: "tryAttempt u (post a) = Inl e" and notClient: "\<not> isClientError e" by blast
  have "n = k + 1 - (a + 1)" using Suc.hyps(2) by simp
  moreover have "\<forall>j. a + 1 \<le> j \<and> j \<le> k \<longrightarrow> retryableFailure (post j)" using Suc.prems(1) by simp
  moreover have "a + 1 \<le> k + 1" using \<open>a \<le> k\<close> by simp
  ultimately have "k + 1 \<le> exitAttempts (forwardLoop post u opts (a + 1) (Some e)
      (if a < optMaxRetries opts then sl @ [backoffDelay (optRetryDelay opts) a] else sl))"
    using Suc.hyps(1) Suc.prems(2) by blast
  then show ?case by (simp only: forwardLoop_retry [where post = post and a = a, OF inRange Inl notClient])
qed

lemma loop_bound:
  "exitAttempts (forwardLoop post u opts a le sl) \<le> max (a - 1) (optMaxRetries opts)"
proof (induction "optMaxRetries opts + 1 - a" arbitrary: a le sl)
  case 0
  then have "\<not> a \<le> optMaxRetries opts" by simp
  then show ?case by (simp add: forwardLoop_done)
next
  case (Suc n)
  then have inRange: "a \<le> optMaxRetries opts" by simp
  show ?case
  proof (cases "tryAttempt u (post a)")
    case (Inr d)
    with inRange show ?thesis by (simp add: forwardLoop_return)
  next
    case (Inl e)
    show ?thesis
    proof (cases "isClientError e")
      case True
      with Inl inRange show ?thesis by (simp add: forwardLoop_break)
    next
      case False
      have "n = optMaxRetries opts + 1 - (a + 1)" using Suc.hyps(2) by simp
      from Suc.hyps(1) [OF this]
      have "exitAttempts (forwardLoop post u opts (a + 1) (Some e)
              (if a < optMaxRetries opts then sl @ [backoffDelay (optRetryDelay opts) a] else sl))
            \<le> max (a + 1 - 1) (optMaxRetries opts)" .
      also have "\<dots> = optMaxRetries opts" using inRange by simp
      also have "\<dots> \<le> max (a - 1) (optMaxRetries opts)" by simp
      finally show ?thesis
        by (simp only: forwardLoop_retry [where post = post and a = a, OF inRange Inl False])
    qed
  qed
qed


lemma tryAttempt_Inr_valid: "tryAttempt u outcome = Inr d \<Longrightarrow> isValidMCPResponse d"
  by (auto simp: tryAttempt_def split: http_outcome.splits if_splits)

lemma loop_returns_valid:
  "forwardLoop post u opts a le sl = Returned d n sl' \<Longrightarrow> isValidMCPResponse d"
proof (induction "optMaxRetries opts + 1 - a" arbitrary: a le sl)
  case 0
  then have "\<not> a \<le> optMaxRetries opts" by simp
  with 0 show ?case by (simp add: forwardLoop_done)
next
  case (Suc k)
  then have inRange: "a \<le> optMaxRetries opts" by simp
  show ?case
  proof (cases "tryAttempt u (post a)")
    case (Inr d')
    with inRange Suc.prems have "d' = d" by (simp add: forwardLoop_return)
    with Inr show ?thesis by (auto dest: tryAttempt_Inr_valid)
  next
    case (Inl e)
    show ?thesis
    proof (cases "isClientError e")
      case True
      with Inl inRange Suc.prems show ?thesis by (simp add: forwardLoop_break)
    next
      case False
      have "k = optMaxRetries opts + 1 - (a + 1)" using Suc.hyps(2) by simp
      moreover from Suc.prems
      have "forwardLoop post u opts (a + 1) (Some e)
              (if a < optMaxRetries opts then sl @ [backoffDelay (optRetryDelay opts) a] else sl)
            = Returned d n sl'"
        by (simp only: forwardLoop_retry [where post = post and a = a, OF inRange Inl False])
      ultimately show ?thesis using Suc.hyps(1) by blast
    qed
  qed
qed

lemma error_envelope_valid: "isValidMCPResponse (createMCPErrorResponse c msg i dat)"
  by (simp add: isValidMCPResponse_def createMCPErrorResponse_def)

lemma forwardRequest_valid: "isValidMCPResponse (response (forwardRequest u rq os post d))"
proof (cases "forwardLoop post u (mergeOptions defaultOptions os) 1 None []")
  case (Returned dat n sl)
  then show ?thesis
    by (simp add: forwardRequest_def loop_returns_valid [OF Returned])
next
  case (Failed e n sl)
  then show ?thesis
    by (simp add: forwardRequest_def error_envelope_valid)
qed

lemma valid_shape:
  "isValidMCPResponse dat \<Longrightarrow>
     (hasKey ''result'' dat \<noteq> hasKey ''error'' dat)
     \<and> getProp dat ''jsonrpc'' = JStr ''2.0''
     \<and> (hasKey ''error'' dat \<longrightarrow>
          typeof (getProp (getProp dat ''error'') ''code'') = ''number''
          \<and> typeof (getProp (getProp dat ''error'') ''message'') = ''string'')"
  unfolding isValidMCPResponse_def Let_def
  by (auto split: if_splits)


subsection \<open>A call whose every attempt fails\<close>

lemma loop_all_retryable:
  "\<forall>j. a \<le> j \<and> j \<le> optMaxRetries opts \<longrightarrow> retryableFailure (post j) \<Longrightarrow> a \<le> optMaxRetries opts
     \<Longrightarrow> \<exists>e. forwardLoop post u opts a le sl =
           Failed (Some e) (optMaxRetries opts)
             (sl @ map (backoffDelay (optRetryDelay opts)) [a..<optMaxRetries opts])"
proof (induction "optMaxRetries opts - a" arbitrary: a le sl)
  case 0
  then have last: "a = optMaxRetries opts" by simp
  from 0 have "retryableFailure (post a)" by simp
  from tryAttempt_retryable [OF this, of u]
  obtain e where Inl: "tryAttempt u (post a) = Inl e" and notClient: "\<not> isClientError e" by blast
  have "forwardLoop post u opts a le sl = forwardLoop post u opts (a + 1) (Some e) sl"
    using forwardLoop_retry [where post = post and a = a, OF "0.prems"(2) Inl notClient] last by simp
  also have "\<dots> = Failed (Some e) (optMaxRetries opts) sl"
    using last by (simp add: forwardLoop_done)
  finally show ?case using last by simp
next
  case (Suc n)
  then have less: "a < optMaxRetries opts" by simp
  then have inRange: "a \<le> optMaxRetries opts" by simp
  from Suc.prems have "retryableFailure (post a)" by simp
  from tryAttempt_retryable [OF this, of u]
  obtain e where Inl: "tryAttempt u (post a) = Inl e" and notClient: "\<not> isClientError e" by blast
  have step: "forwardLoop post u opts a le sl =
      forwardLoop post u opts (a + 1) (Some e) (sl @ [backoffDelay (optRetryDelay opts) a])"
    using forwardLoop_retry [where post = post and a = a, OF inRange Inl notClient] less by simp
  have "n = optMaxRetries opts - (a + 1)" using Suc.hyps(2) by simp
  moreover have "\<forall>j. a + 1 \<le> j \<and> j \<le> optMaxRetries opts \<longrightarrow> retryableFailure (post j)"
    using Suc.prems(1) by simp
  moreover have "a + 1 \<le> optMaxRetries opts" using less by simp
  ultimately obtain e' where
    "forwardLoop post u opts (a + 1) (Some e) (sl @ [backoffDelay (optRetryDelay opts) a]) =
       Failed (Some e') (optMaxRetries opts)
         ((sl @ [backoffDelay (optRetryDelay opts) a])
            @ map (backoffDelay (optRetryDelay opts)) [a + 1..<optMaxRetries opts])"
    using Suc.hyps(1) by blast
  moreover have "[a..<optMaxRetries opts] = a # [a + 1..<optMaxRetries opts]"
    using less by (simp add: upt_conv_Cons)
  ultimately show ?case using step by simp
qed

lemma exhaustion_posts_and_delays:
  assumes "\<forall>j. 1 \<le> j \<and> j \<le> optMaxRetries (mergeOptions defaultOptions os) \<longrightarrow> retryableFailure (post j)"
    and "1 \<le> optMaxRetries (mergeOptions defaultOptions os)"
  shows "attempts (forwardRequest u rq os post d) = optMaxRetries (mergeOptions defaultOptions os)
     \<and> delays (forwardRequest u rq os post d) =
         map (backoffDelay (optRetryDelay (mergeOptions defaultOptions os)))
           [1..<optMaxRetries (mergeOptions defaultOptions os)]
     \<and> errorCode (response (forwardRequest u rq os post d)) = JNum (- 32603)"
proof -
  from loop_all_retryable [OF assms, of u None "[]"]
  obtain e where "forwardLoop post u (mergeOptions defaultOptions os) 1 None [] =
           Failed (Some e) (optMaxRetries (mergeOptions defaultOptions os))
             (map (backoffDelay (optRetryDelay (mergeOptions defaultOptions os)))
                [1..<optMaxRetries (mergeOptions defaultOptions os)])"
    by auto
  then show ?thesis by (simp add: forwardRequest_def Let_def)
qed

section \<open>The claims about the forwarder\<close>

text \<open>
  Claim C3. A forwarded call is said to make up to \<open>maxRetries + 1\<close> attempts and to use
  all of them when every attempt fails with a retryable error. The loop counts
  \<open>attempt\<close> from 1 while \<open>attempt \<le> maxRetries\<close>: with \<open>maxRetries = 2\<close> and a backend
  whose every post fails with a timeout, two posts are made, one delay is slept, and the
  error envelope with code -32603 is returned; its data gives 2 as the attempts.
\<close>

theorem forwardRequest_exhausts_after_maxRetries_posts:
  "forwardRequest ''http://localhost:8001'' rq
      \<lparr>timeout = None, maxRetries = Some 2, retryDelay = Some 100\<rparr>
      (\<lambda>n. Rejected (OtherError ''Connection timeout'')) 350
   = \<lparr>response =
        createMCPErrorResponse (- 32603)
          ''Failed to forward request to http://localhost:8001: Connection timeout''
          (reqId rq)
          (JObj [(''serverUrl'', JStr ''http://localhost:8001''), (''attempts'', JNum 2),
                 (''totalDuration'', JStr ''350ms'')]),
      attempts = 2, delays = [100]\<rparr>"
  by (simp add: forwardRequest_def mergeOptions_def defaultOptions_def forwardLoop.simps
        tryAttempt_def backoffDelay_def lastErrorMessage_def decimal.simps digit10_def)

text \<open>
  Claim C4. The delay slept between attempt \<open>n\<close> and attempt \<open>n + 1\<close> is said to be
  \<open>min (b * 2 ^ (n - 1)) 30000\<close>, the value of \<open>getRetryDelay\<close>. The forwarder computes
  \<open>b * 2 ^ (n - 1)\<close> and has no cap: with a base of 1000 and seven attempts allowed it
  sleeps 32000 after the sixth failure, where \<open>getRetryDelay 6 1000\<close> is 30000.
\<close>

theorem forwardRequest_delay_exceeds_cap:
  "delays (forwardRequest u rq \<lparr>timeout = None, maxRetries = Some 7, retryDelay = Some 1000\<rparr>
             (\<lambda>n. Rejected (OtherError ''connect ECONNREFUSED'')) d)
     = [1000, 2000, 4000, 8000, 16000, 32000]
   \<and> map (\<lambda>n. getRetryDelay n 1000) [1, 2, 3, 4, 5, 6] = [1000, 2000, 4000, 8000, 16000, 30000]"
  by (simp add: forwardRequest_def mergeOptions_def defaultOptions_def forwardLoop.simps
        tryAttempt_def backoffDelay_def getRetryDelay_def)

text \<open>
  Claim C5. Whatever the backend does, the envelope \<open>forwardRequest\<close> returns passes
  \<open>isValidMCPResponse\<close>. An envelope that passes has exactly one of the keys \<open>result\<close>
  and \<open>error\<close>, declares version \<open>2.0\<close>, and, when it has an error, the error's \<open>code\<close>
  is a number and its \<open>message\<close> a string. A reply that does not pass makes the attempt
  throw, as a failed post does, and is never the envelope returned.
\<close>

theorem forwardRequest_envelopes_are_valid:
  "isValidMCPResponse (response (forwardRequest u rq os post d))
   \<and> (isValidMCPResponse dat \<longrightarrow>
        (hasKey ''result'' dat \<noteq> hasKey ''error'' dat)
        \<and> getProp dat ''jsonrpc'' = JStr ''2.0''
        \<and> (hasKey ''error'' dat \<longrightarrow>
             typeof (getProp (getProp dat ''error'') ''code'') = ''number''
             \<and> typeof (getProp (getProp dat ''error'') ''message'') = ''string''))
   \<and> (\<not> isValidMCPResponse bad \<longrightarrow>
        response (forwardRequest u rq os post d) \<noteq> bad
        \<and> tryAttempt u (Resolved st bad)
            = Inl (OtherError (''Invalid MCP response format from '' @ u)))"
  using forwardRequest_valid [of u rq os post d] valid_shape [of dat]
  by (auto simp: tryAttempt_def)

theorem forwardRequest_envelopes_are_valid_witness:
  "isValidMCPResponse
     (JObj [(''jsonrpc'', JStr ''2.0''), (''id'', JStr ''1''),
            (''error'', JObj [(''code'', JNum (- 32601)), (''message'', JStr ''Method not found'')])])
   \<and> \<not> isValidMCPResponse
         (JObj [(''jsonrpc'', JStr ''2.0''), (''id'', JStr ''1''), (''result'', JObj []),
                (''error'', JObj [(''code'', JNum (- 32603)), (''message'', JStr ''Internal error'')])])
   \<and> response (forwardRequest ''http://localhost:8001''
         \<lparr>reqMethod = ''tools/list'', reqParams = JObj [], reqId = JStr ''1'', reqJsonrpc = ''2.0''\<rparr>
         noOptions
         (\<lambda>n. Resolved 200
            (JObj [(''jsonrpc'', JStr ''2.0''), (''id'', JStr ''1''), (''result'', JObj []),
                   (''error'', JObj [(''code'', JNum (- 32603)),
                                     (''message'', JStr ''Internal error'')])]))
         12)
       \<noteq> JObj [(''jsonrpc'', JStr ''2.0''), (''id'', JStr ''1''), (''result'', JObj []),
                (''error'', JObj [(''code'', JNum (- 32603)), (''message'', JStr ''Internal error'')])]
   \<and> typeof (getProp (getProp
         (JObj [(''jsonrpc'', JStr ''2.0''), (''id'', JStr ''1''),
                (''error'', JObj [(''code'', JNum (- 32601)),
                                  (''message'', JStr ''Method not found'')])]) ''error'') ''code'')
       = ''number''"
proof -
  let ?good = "JObj [(''jsonrpc'', JStr ''2.0''), (''id'', JStr ''1''),
            (''error'', JObj [(''code'', JNum (- 32601)), (''message'', JStr ''Method not found'')])]"
  let ?bad = "JObj [(''jsonrpc'', JStr ''2.0''), (''id'', JStr ''1''), (''result'', JObj []),
                (''error'', JObj [(''code'', JNum (- 32603)), (''message'', JStr ''Internal error'')])]"
  have good: "isValidMCPResponse ?good" and good_error: "hasKey ''error'' ?good"
    by (simp_all add: isValidMCPResponse_def)
  have bad: "\<not> isValidMCPResponse ?bad"
    by (simp add: isValidMCPResponse_def)
  from forwardRequest_envelopes_are_valid [of "''http://localhost:8001''"
      "\<lparr>reqMethod = ''tools/list'', reqParams = JObj [], reqId = JStr ''1'', reqJsonrpc = ''2.0''\<rparr>"
      noOptions "\<lambda>n. Resolved 200 ?bad" 12 ?good ?bad 200] good good_error bad
  show ?thesis by blast
qed

text \<open>
  Claim C6. A post answered with a status from 400 to 499 is the last post of the call:
  no attempt follows it, and when the attempts before it failed in a way that is retried,
  it is attempt \<open>k\<close> exactly. After \<open>m\<close> attempts that each failed with a status of 500 or
  more, a network failure or a timeout, attempt \<open>m + 1\<close> is made as long as \<open>m\<close> is below
  the limit, and the limit is never passed.
\<close>

theorem client_error_ends_retryable_failure_retries:
  "(1 \<le> k \<and> clientErrorReply (post k) \<longrightarrow> attempts (forwardRequest u rq os post d) \<le> k)
   \<and> ((\<forall>j. 1 \<le> j \<and> j < k \<longrightarrow> retryableFailure (post j))
        \<and> 1 \<le> k \<and> k \<le> optMaxRetries (mergeOptions defaultOptions os)
        \<and> clientErrorReply (post k)
        \<longrightarrow> attempts (forwardRequest u rq os post d) = k)
   \<and> ((\<forall>j. 1 \<le> j \<and> j \<le> m \<longrightarrow> retryableFailure (post j))
        \<and> m < optMaxRetries (mergeOptions defaultOptions os)
        \<longrightarrow> m + 1 \<le> attempts (forwardRequest u rq os post d))
   \<and> attempts (forwardRequest u rq os post d) \<le> optMaxRetries (mergeOptions defaultOptions os)"
proof -
  let ?opts = "mergeOptions defaultOptions os"
  let ?n = "exitAttempts (forwardLoop post u ?opts 1 None [])"
  have stop: "1 \<le> k \<Longrightarrow> clientErrorReply (post k) \<Longrightarrow> ?n \<le> k"
    by (rule loop_stops_at_client_error)
  have retry: "\<And>i. \<forall>j. 1 \<le> j \<and> j \<le> i \<longrightarrow> retryableFailure (post j) \<Longrightarrow> i < optMaxRetries ?opts
      \<Longrightarrow> i + 1 \<le> ?n"
    by (rule loop_retries) simp_all
  have exact: "?n = k"
    if pre: "\<forall>j. 1 \<le> j \<and> j < k \<longrightarrow> retryableFailure (post j)" and k1: "1 \<le> k"
      and kmax: "k \<le> optMaxRetries ?opts" and cli: "clientErrorReply (post k)"
  proof -
    from pre have "\<forall>j. 1 \<le> j \<and> j \<le> k - 1 \<longrightarrow> retryableFailure (post j)" by auto
    moreover from k1 kmax have "k - 1 < optMaxRetries ?opts" by simp
    ultimately have "k - 1 + 1 \<le> ?n" by (rule retry)
    with k1 stop [OF k1 cli] show ?thesis by simp
  qed
  have bound: "?n \<le> optMaxRetries ?opts"
    using loop_bound [of post u ?opts 1 None "[]"] by simp
  show ?thesis
    unfolding attempts_forwardRequest using stop retry exact bound by blast
qed

text \<open>
  Two replies with status 503 and then one with status 404, under the default limit of
  three: the third post is the last.
\<close>

theorem client_error_ends_retryable_failure_retries_witness:
  "retryableFailure (Rejected (AxiosError (Some 503) ''Request failed with status code 503''))
   \<and> clientErrorReply (Rejected (AxiosError (Some 404) ''Request failed with status code 404''))
   \<and> attempts (forwardRequest ''http://localhost:8001''
        \<lparr>reqMethod = ''tools/call'', reqParams = JObj [], reqId = JStr ''7'', reqJsonrpc = ''2.0''\<rparr>
        noOptions
        (\<lambda>n. if n < 3 then Rejected (AxiosError (Some 503) ''Request failed with status code 503'')
              else Rejected (AxiosError (Some 404) ''Request failed with status code 404''))
        40) = 3"
proof -
  let ?post = "\<lambda>n::nat. if n < 3 then Rejected (AxiosError (Some 503) ''Request failed with status code 503'')
              else Rejected (AxiosError (Some 404) ''Request failed with status code 404'')"
  have r: "retryableFailure (Rejected (AxiosError (Some 503) ''Request failed with status code 503''))"
    by (simp add: retryableFailure_def)
  have c: "clientErrorReply (Rejected (AxiosError (Some 404) ''Request failed with status code 404''))"
    by (simp add: clientErrorReply_def)
  have pre: "\<forall>j. 1 \<le> j \<and> j < 3 \<longrightarrow> retryableFailure (?post j)" using r by simp
  have at3: "clientErrorReply (?post 3)" using c by simp
  have budget: "(3::nat) \<le> optMaxRetries (mergeOptions defaultOptions noOptions)"
    by (simp add: mergeOptions_def defaultOptions_def noOptions_def)
  from client_error_ends_retryable_failure_retries [of 3 ?post "''http://localhost:8001''"
      "\<lparr>reqMethod = ''tools/call'', reqParams = JObj [], reqId = JStr ''7'', reqJsonrpc = ''2.0''\<rparr>"
      noOptions 40 2] pre at3 budget
  have "attempts (forwardRequest ''http://localhost:8001''
        \<lparr>reqMethod = ''tools/call'', reqParams = JObj [], reqId = JStr ''7'', reqJsonrpc = ''2.0''\<rparr>
        noOptions ?post 40) = 3"
    by (meson le_numeral_extra(4) one_le_numeral)
  with r c show ?thesis by simp
qed


section \<open>Properties of the router and the gateway\<close>

text \<open>The result \<^verbatim>\<open>routeRequest\<close> returns from its \<^verbatim>\<open>catch\<close> block.\<close>

definition routingFailure :: "string \<Rightarrow> RoutingResult" where
  "routingFailure message =
     \<lparr>serverName = Named [], serverUrl = Some [], success = False, error = Some message\<rparr>"

text \<open>The result for a server found among the configured ones.\<close>

definition routedTo :: "string \<Rightarrow> ServerConfig \<Rightarrow> RoutingResult" where
  "routedTo b sc = \<lparr>serverName = Named b, serverUrl = Some (url sc), success = True, error = None\<rparr>"

text \<open>A server entry with only its name and address set, for the examples.\<close>

definition exampleServer :: "string \<Rightarrow> string \<Rightarrow> ServerConfig" where
  "exampleServer n u =
     \<lparr>serverConfigName = n, url = u, serverTimeout = None, serverMaxRetries = None,
      healthCheckPath = None\<rparr>"

subsection \<open>The lookup key\<close>

lemma firstSegment_key:
  "key \<noteq> [] \<Longrightarrow> CHR ''/'' \<notin> set key
     \<Longrightarrow> firstSegment (replicate n (CHR ''/'') @ key @ CHR ''/'' # rest) = key"
  by (cases key) (auto simp: firstSegment_def dropWhile_append takeWhile_append takeWhile_eq_all_conv[THEN iffD2])

lemma firstSegment_last:
  "key \<noteq> [] \<Longrightarrow> CHR ''/'' \<notin> set key \<Longrightarrow> firstSegment (replicate n (CHR ''/'') @ key) = key"
  by (cases key) (auto simp: firstSegment_def dropWhile_append takeWhile_eq_all_conv[THEN iffD2])

lemma firstSegment_empty_path: "firstSegment [] = []"
  by (simp add: firstSegment_def)

lemma firstSegment_nonempty: "firstSegment path \<noteq> [] \<Longrightarrow> path \<noteq> []"
  by (auto simp: firstSegment_def)

lemma firstSegment_github: "firstSegment ''/github/x'' = ''github''"
  by (simp add: firstSegment_def)

subsection \<open>Own and inherited properties\<close>

lemma readProperty_own: "map_of obj key = Some v \<Longrightarrow> readProperty obj key = Own v"
  by (simp add: readProperty_def)

lemma readProperty_missing:
  "map_of obj key = None \<Longrightarrow> key \<notin> set objectPrototypeKeys \<Longrightarrow> readProperty obj key = Missing"
  by (simp add: readProperty_def)

lemma readProperty_inherited:
  "map_of obj key = None \<Longrightarrow> key \<in> set objectPrototypeKeys \<Longrightarrow> readProperty obj key = Inherited key"
  by (simp add: readProperty_def)

subsection \<open>The outcomes of routing\<close>

lemma route_invalid_strategy:
  "strategy (config r) \<noteq> ''prefix'' \<Longrightarrow> strategy (config r) \<noteq> ''header''
     \<Longrightarrow> routeRequest r rq p hs = routingFailure ''Invalid routing strategy''"
  by (simp add: routeRequest_def resolveRoute_def routingFailure_def Let_def)

lemma resolveRoute_prefix:
  "strategy (config r) = ''prefix'' \<Longrightarrow>
     resolveRoute r p hs =
       (case (case routeByPrefix (config r) p of
                Some t \<Rightarrow> Some t
              | None \<Rightarrow> (case defaultServer (config r) of
                           Some d \<Rightarrow> if d \<noteq> [] then Some (Named d) else None
                         | None \<Rightarrow> None)) of
          None \<Rightarrow> Inl (RoutingError ''No route found''
                        ''No matching routing rule found and no default server configured'')
        | Some t \<Rightarrow> (case getServerUrl r t of Inl e \<Rightarrow> Inl e | Inr address \<Rightarrow> Inr (t, address)))"
  by (simp add: resolveRoute_def Let_def)

text \<open>What \<^verbatim>\<open>routeRequest\<close> returns once the server name is chosen.\<close>

definition routedBy :: "Router \<Rightarrow> target \<Rightarrow> RoutingResult" where
  "routedBy r t =
     (case readProperty (servers r) (targetText t) of
        Missing \<Rightarrow> routingFailure ''Server not found''
      | Own sc \<Rightarrow> \<lparr>serverName = t, serverUrl = Some (url sc), success = True, error = None\<rparr>
      | Inherited member \<Rightarrow> \<lparr>serverName = t, serverUrl = None, success = True, error = None\<rparr>)"

lemma route_prefix_chosen:
  assumes "strategy (config r) = ''prefix''" and "routeByPrefix (config r) p = Some t"
  shows "routeRequest r rq p hs = routedBy r t"
  using assms(2)
  by (simp add: routeRequest_def resolveRoute_prefix [OF assms(1)] getServerUrl_def routedBy_def
        routingFailure_def split: property.splits)

lemma route_prefix_default:
  assumes "strategy (config r) = ''prefix''" and "routeByPrefix (config r) p = None"
  shows "routeRequest r rq p hs =
     (case defaultServer (config r) of
        None \<Rightarrow> routingFailure ''No route found''
      | Some d \<Rightarrow> if d = [] then routingFailure ''No route found'' else routedBy r (Named d))"
  using assms(2)
  by (simp add: routeRequest_def resolveRoute_prefix [OF assms(1)] getServerUrl_def routedBy_def
        routingFailure_def split: property.splits option.splits)

lemma routeByPrefix_rule:
  "firstSegment path \<noteq> [] \<Longrightarrow> map_of (rules cfg) (firstSegment path) = Some b \<Longrightarrow> b \<noteq> []
     \<Longrightarrow> routeByPrefix cfg (Some path) = Some (Named b)"
  using firstSegment_nonempty [of path]
  by (simp add: routeByPrefix_def lookupRule_def readProperty_own Let_def)

lemma routeByPrefix_inherited:
  "firstSegment path \<in> set objectPrototypeKeys \<Longrightarrow> map_of (rules cfg) (firstSegment path) = None
     \<Longrightarrow> routeByPrefix cfg (Some path) = Some (Member (firstSegment path))"
proof -
  assume member: "firstSegment path \<in> set objectPrototypeKeys"
    and none: "map_of (rules cfg) (firstSegment path) = None"
  from member have "firstSegment path \<noteq> []" by (auto simp: objectPrototypeKeys_def)
  with firstSegment_nonempty [of path] member none show ?thesis
    by (simp add: routeByPrefix_def lookupRule_def readProperty_inherited Let_def)
qed

lemma routeByPrefix_unmatched:
  "p = None \<or> (\<exists>path. p = Some path \<and> (firstSegment path = []
        \<or> map_of (rules cfg) (firstSegment path) = None
          \<and> firstSegment path \<notin> set objectPrototypeKeys))
     \<Longrightarrow> routeByPrefix cfg p = None"
  by (auto simp: routeByPrefix_def lookupRule_def readProperty_missing Let_def)

lemma routedBy_configured:
  "map_of (servers r) b = Some sc \<Longrightarrow> routedBy r (Named b) = routedTo b sc"
  by (simp add: routedBy_def routedTo_def readProperty_own)

lemma routedBy_missing:
  "map_of (servers r) b = None \<Longrightarrow> b \<notin> set objectPrototypeKeys
     \<Longrightarrow> routedBy r (Named b) = routingFailure ''Server not found''"
  by (simp add: routedBy_def readProperty_missing)

lemma getServerUrl_Inl:
  "getServerUrl r t = Inl e \<Longrightarrow> routingErrorMessage e = ''Server not found''"
  by (auto simp: getServerUrl_def split: property.splits)

lemma resolveRoute_Inl:
  assumes "resolveRoute r p hs = Inl e"
  shows "routingErrorMessage e = ''Invalid routing strategy''
     \<or> routingErrorMessage e = ''No route found''
     \<or> routingErrorMessage e = ''Server not found''"
proof -
  define byStrategy where "byStrategy =
     (if strategy (config r) = ''prefix'' then Inr (routeByPrefix (config r) p)
      else if strategy (config r) = ''header'' then Inr (routeByHeader (config r) hs)
      else Inl (RoutingError ''Invalid routing strategy''
                  (''Unknown strategy: '' @ strategy (config r))))"
  show ?thesis
  proof (cases byStrategy)
    case (Inl e')
    then have "e' = RoutingError ''Invalid routing strategy'' (''Unknown strategy: '' @ strategy (config r))"
      by (simp add: byStrategy_def split: if_splits)
    moreover from Inl assms have "e = e'"
      by (simp add: resolveRoute_def Let_def byStrategy_def [symmetric])
    ultimately show ?thesis by simp
  next
    case (Inr found)
    define chosen where "chosen =
       (case found of
          Some t \<Rightarrow> Some t
        | None \<Rightarrow> (case defaultServer (config r) of
                     Some d \<Rightarrow> if d \<noteq> [] then Some (Named d) else None
                   | None \<Rightarrow> None))"
    have eq: "resolveRoute r p hs =
       (case chosen of
          None \<Rightarrow> Inl (RoutingError ''No route found''
                        ''No matching routing rule found and no default server configured'')
        | Some t \<Rightarrow> (case getServerUrl r t of Inl e \<Rightarrow> Inl e | Inr address \<Rightarrow> Inr (t, address)))"
      using Inr by (simp add: resolveRoute_def Let_def byStrategy_def [symmetric] chosen_def)
    show ?thesis
    proof (cases chosen)
      case None
      with eq assms show ?thesis by auto
    next
      case (Some t)
      with eq assms have "getServerUrl r t = Inl e" by (simp split: sum.splits)
      then show ?thesis by (simp add: getServerUrl_Inl)
    qed
  qed
qed

lemma route_failure_messages:
  assumes "\<not> success (routeRequest r rq p hs)"
  shows "routeRequest r rq p hs = routingFailure ''Invalid routing strategy''
     \<or> routeRequest r rq p hs = routingFailure ''No route found''
     \<or> routeRequest r rq p hs = routingFailure ''Server not found''"
proof (cases "resolveRoute r p hs")
  case (Inl e)
  then have "routeRequest r rq p hs = routingFailure (routingErrorMessage e)"
    by (simp add: routeRequest_def routingFailure_def)
  with resolveRoute_Inl [OF Inl] show ?thesis by auto
next
  case (Inr found)
  with assms show ?thesis by (simp add: routeRequest_def split: prod.splits)
qed

lemma handleRequest_routing_failure:
  assumes "reqMethod rq \<noteq> ''get_methods''"
    and "routeRequest \<lparr>config = routing cfg, servers = configServers cfg\<rparr> rq p hs = routingFailure msg"
    and "msg \<noteq> []"
  shows "handleRequest cfg net now el rq p hs =
     createMCPErrorResponse (- 32601) msg (reqId rq)
       (JObj [(''requestPath'', (case p of Some path \<Rightarrow> JStr path | None \<Rightarrow> JUndefined)),
              (''availableServers'', JArr (map (\<lambda>(sName, sc). JStr sName) (configServers cfg)))])"
  using assms by (simp add: handleRequest_def routingFailure_def Let_def)

text \<open>
  Prefix routing where no name of \<^verbatim>\<open>Object.prototype\<close> is involved. The key is the
  first segment, whether or not a slash follows it. A key with a rule that names a
  configured server resolves to that server; an absent path, an empty path or an empty
  first segment resolves to the default server; with no rule for the key and no default
  the result is the failure \<open>No route found\<close>; a rule that names a server missing from
  the server set gives the failure \<open>Server not found\<close>; a strategy that is neither
  \<open>prefix\<close> nor \<open>header\<close> gives the failure \<open>Invalid routing strategy\<close>.
\<close>

lemma prefix_routing_outcomes:
  "(key \<noteq> [] \<and> CHR ''/'' \<notin> set key
      \<longrightarrow> firstSegment (replicate n (CHR ''/'') @ key @ CHR ''/'' # rest) = key
        \<and> firstSegment (replicate n (CHR ''/'') @ key) = key)
   \<and> (firstSegment path \<noteq> [] \<and> map_of rs (firstSegment path) = Some b \<and> b \<noteq> []
        \<and> map_of ss b = Some sc
      \<longrightarrow> routeRequest
            \<lparr>config = \<lparr>strategy = ''prefix'', rules = rs, defaultServer = dflt\<rparr>, servers = ss\<rparr>
            rq (Some path) hs
          = routedTo b sc)
   \<and> ((p = None \<or> p = Some [] \<or> p = Some emptyPath \<and> firstSegment emptyPath = [])
        \<and> d \<noteq> [] \<and> map_of ss d = Some dc
      \<longrightarrow> routeRequest
            \<lparr>config = \<lparr>strategy = ''prefix'', rules = rs, defaultServer = Some d\<rparr>, servers = ss\<rparr>
            rq p hs
          = routedTo d dc)
   \<and> ((q = None \<or> q = Some otherPath
            \<and> (firstSegment otherPath = []
                \<or> map_of rs (firstSegment otherPath) = None
                  \<and> firstSegment otherPath \<notin> set objectPrototypeKeys))
      \<longrightarrow> routeRequest
            \<lparr>config = \<lparr>strategy = ''prefix'', rules = rs, defaultServer = None\<rparr>, servers = ss\<rparr>
            rq q hs
          = routingFailure ''No route found'')
   \<and> (firstSegment danglingPath \<noteq> [] \<and> map_of rs (firstSegment danglingPath) = Some missing
        \<and> missing \<noteq> [] \<and> map_of ss missing = None \<and> missing \<notin> set objectPrototypeKeys
      \<longrightarrow> routeRequest
            \<lparr>config = \<lparr>strategy = ''prefix'', rules = rs, defaultServer = dflt\<rparr>, servers = ss\<rparr>
            rq (Some danglingPath) hs
          = routingFailure ''Server not found'')
   \<and> (strat \<noteq> ''prefix'' \<and> strat \<noteq> ''header''
      \<longrightarrow> routeRequest
            \<lparr>config = \<lparr>strategy = strat, rules = rs, defaultServer = dflt\<rparr>, servers = ss\<rparr>
            rq p hs
          = routingFailure ''Invalid routing strategy'')"
proof -
  let ?r = "\<lambda>df. \<lparr>config = \<lparr>strategy = ''prefix'', rules = rs, defaultServer = df\<rparr>, servers = ss\<rparr>"
  have c1: "key \<noteq> [] \<and> CHR ''/'' \<notin> set key
      \<longrightarrow> firstSegment (replicate n (CHR ''/'') @ key @ CHR ''/'' # rest) = key
        \<and> firstSegment (replicate n (CHR ''/'') @ key) = key"
    by (simp add: firstSegment_key firstSegment_last)
  have found: "routeRequest (?r df) rq (Some pth) hs = routedBy (?r df) (Named tgt)"
    if "firstSegment pth \<noteq> []" "map_of rs (firstSegment pth) = Some tgt" "tgt \<noteq> []"
    for df pth tgt
    using that route_prefix_chosen [of "?r df" "Some pth" "Named tgt" rq hs]
      routeByPrefix_rule [of pth "config (?r df)" tgt]
    by simp
  have c3: "firstSegment path \<noteq> [] \<and> map_of rs (firstSegment path) = Some b \<and> b \<noteq> []
        \<and> map_of ss b = Some sc
      \<longrightarrow> routeRequest (?r dflt) rq (Some path) hs = routedTo b sc"
    using found [of path b dflt] routedBy_configured [of "?r dflt" b sc] by simp
  have c6: "firstSegment danglingPath \<noteq> [] \<and> map_of rs (firstSegment danglingPath) = Some missing
        \<and> missing \<noteq> [] \<and> map_of ss missing = None \<and> missing \<notin> set objectPrototypeKeys
      \<longrightarrow> routeRequest (?r dflt) rq (Some danglingPath) hs = routingFailure ''Server not found''"
    using found [of danglingPath missing dflt] routedBy_missing [of "?r dflt" missing] by simp
  have c4: "(p = None \<or> p = Some [] \<or> p = Some emptyPath \<and> firstSegment emptyPath = [])
        \<and> d \<noteq> [] \<and> map_of ss d = Some dc
      \<longrightarrow> routeRequest (?r (Some d)) rq p hs = routedTo d dc"
  proof
    assume h: "(p = None \<or> p = Some [] \<or> p = Some emptyPath \<and> firstSegment emptyPath = [])
        \<and> d \<noteq> [] \<and> map_of ss d = Some dc"
    then have "routeByPrefix (config (?r (Some d))) p = None"
      by (intro routeByPrefix_unmatched) (use firstSegment_empty_path in blast)
    from route_prefix_default [OF _ this, of rq hs] h routedBy_configured [of "?r (Some d)" d dc]
    show "routeRequest (?r (Some d)) rq p hs = routedTo d dc" by simp
  qed
  have c5: "(q = None \<or> q = Some otherPath
            \<and> (firstSegment otherPath = []
                \<or> map_of rs (firstSegment otherPath) = None
                  \<and> firstSegment otherPath \<notin> set objectPrototypeKeys))
      \<longrightarrow> routeRequest (?r None) rq q hs = routingFailure ''No route found''"
  proof
    assume "q = None \<or> q = Some otherPath
            \<and> (firstSegment otherPath = []
                \<or> map_of rs (firstSegment otherPath) = None
                  \<and> firstSegment otherPath \<notin> set objectPrototypeKeys)"
    then have "routeByPrefix (config (?r None)) q = None"
      by (intro routeByPrefix_unmatched) auto
    from route_prefix_default [OF _ this, of rq hs]
    show "routeRequest (?r None) rq q hs = routingFailure ''No route found''" by simp
  qed
  have c7: "strat \<noteq> ''prefix'' \<and> strat \<noteq> ''header''
      \<longrightarrow> routeRequest
            \<lparr>config = \<lparr>strategy = strat, rules = rs, defaultServer = dflt\<rparr>, servers = ss\<rparr>
            rq p hs
          = routingFailure ''Invalid routing strategy''"
    using route_invalid_strategy
      [of "\<lparr>config = \<lparr>strategy = strat, rules = rs, defaultServer = dflt\<rparr>, servers = ss\<rparr>" rq p hs]
    by simp
  from c1 c3 c4 c5 c6 c7 show ?thesis by (intro conjI)
qed

text \<open>
  A key that names a member of \<^verbatim>\<open>Object.prototype\<close> and has no rule of its own is
  routed to that member, whatever the default is: the result depends on whether a
  server is configured under the member's text.
\<close>

lemma prefix_routing_inherited_key:
  "firstSegment path \<in> set objectPrototypeKeys \<Longrightarrow> map_of rs (firstSegment path) = None
     \<Longrightarrow> routeRequest
           \<lparr>config = \<lparr>strategy = ''prefix'', rules = rs, defaultServer = dflt\<rparr>, servers = ss\<rparr>
           rq (Some path) hs
         = routedBy \<lparr>config = \<lparr>strategy = ''prefix'', rules = rs, defaultServer = dflt\<rparr>, servers = ss\<rparr>
             (Member (firstSegment path))"
  using route_prefix_chosen
      [of "\<lparr>config = \<lparr>strategy = ''prefix'', rules = rs, defaultServer = dflt\<rparr>, servers = ss\<rparr>"
          "Some path" "Member (firstSegment path)" rq hs]
    routeByPrefix_inherited
      [of path "\<lparr>strategy = ''prefix'', rules = rs, defaultServer = dflt\<rparr>"]
  by simp

section \<open>The claims about the router and the gateway\<close>

text \<open>
  Claim C7. With no rule for the key and no default, routing is said to fail with
  \<open>No route found\<close>, and a rule that names a server missing from the server set to fail
  with \<open>Server not found\<close>. The rules and the servers are read by \<^verbatim>\<open>obj[key]\<close>, which
  also finds the members of \<^verbatim>\<open>Object.prototype\<close>. Under the one rule
  \<open>github \<mapsto> github-backend\<close> and no default, the path \<open>/constructor/x\<close> has no rule and
  ends in \<open>Server not found\<close>, where \<open>/unknown/x\<close> ends in \<open>No route found\<close>; and a rule
  that names the server \<open>toString\<close>, which is not configured, ends in a success with no
  address. The paths \<open>/github/x\<close> and \<open>/github\<close> resolve to \<open>github-backend\<close> as the
  claim says.
\<close>

theorem inherited_key_is_routed_to_prototype_member:
  "routeRequest
     \<lparr>config = \<lparr>strategy = ''prefix'', rules = [(''github'', ''github-backend'')],
                defaultServer = None\<rparr>,
      servers = [(''github-backend'', exampleServer ''github-backend'' ''http://localhost:8001'')]\<rparr>
     rq (Some ''/constructor/x'') hs
   = routingFailure ''Server not found''
   \<and> routeRequest
     \<lparr>config = \<lparr>strategy = ''prefix'', rules = [(''github'', ''github-backend'')],
                defaultServer = None\<rparr>,
      servers = [(''github-backend'', exampleServer ''github-backend'' ''http://localhost:8001'')]\<rparr>
     rq (Some ''/unknown/x'') hs
   = routingFailure ''No route found''
   \<and> routeRequest
     \<lparr>config = \<lparr>strategy = ''prefix'', rules = [(''tools'', ''toString'')],
                defaultServer = None\<rparr>,
      servers = [(''github-backend'', exampleServer ''github-backend'' ''http://localhost:8001'')]\<rparr>
     rq (Some ''/tools/x'') hs
   = \<lparr>serverName = Named ''toString'', serverUrl = None, success = True, error = None\<rparr>
   \<and> routeRequest
     \<lparr>config = \<lparr>strategy = ''prefix'', rules = [(''github'', ''github-backend'')],
                defaultServer = None\<rparr>,
      servers = [(''github-backend'', exampleServer ''github-backend'' ''http://localhost:8001'')]\<rparr>
     rq (Some ''/github/x'') hs
   = \<lparr>serverName = Named ''github-backend'', serverUrl = Some ''http://localhost:8001'',
      success = True, error = None\<rparr>
   \<and> routeRequest
     \<lparr>config = \<lparr>strategy = ''prefix'', rules = [(''github'', ''github-backend'')],
                defaultServer = None\<rparr>,
      servers = [(''github-backend'', exampleServer ''github-backend'' ''http://localhost:8001'')]\<rparr>
     rq (Some ''/github'') hs
   = \<lparr>serverName = Named ''github-backend'', serverUrl = Some ''http://localhost:8001'',
      success = True, error = None\<rparr>"
  by (simp add: routeRequest_def resolveRoute_def routeByPrefix_def lookupRule_def getServerUrl_def
        readProperty_def objectPrototypeKeys_def memberText_def firstSegment_def routingFailure_def
        exampleServer_def Let_def)

text \<open>
  Claim C10. \<open>routeRequest\<close> always returns a result: a success, or a failure carrying
  one of the three routing messages. For a request that the gateway routes (any method
  but the discovery method \<open>get_methods\<close>, which goes to the aggregator and is never
  routed) and whose routing fails, \<open>handleRequest\<close> returns an error envelope with code
  -32601, for each of the three causes; an invalid strategy too gives -32601.
\<close>

theorem routing_failure_is_method_not_found:
  "(success (routeRequest r rq p hs)
      \<or> routeRequest r rq p hs = routingFailure ''Invalid routing strategy''
      \<or> routeRequest r rq p hs = routingFailure ''No route found''
      \<or> routeRequest r rq p hs = routingFailure ''Server not found'')
   \<and> (reqMethod rq \<noteq> ''get_methods''
        \<and> \<not> success (routeRequest \<lparr>config = routing cfg, servers = configServers cfg\<rparr> rq p hs)
      \<longrightarrow> errorCode (handleRequest cfg net now el rq p hs) = JNum (- 32601)
          \<and> \<not> hasKey ''result'' (handleRequest cfg net now el rq p hs)
          \<and> (errorMessage (handleRequest cfg net now el rq p hs) = JStr ''Invalid routing strategy''
               \<or> errorMessage (handleRequest cfg net now el rq p hs) = JStr ''No route found''
               \<or> errorMessage (handleRequest cfg net now el rq p hs) = JStr ''Server not found''))
   \<and> (reqMethod rq \<noteq> ''get_methods''
        \<and> strategy (routing cfg) \<noteq> ''prefix'' \<and> strategy (routing cfg) \<noteq> ''header''
      \<longrightarrow> errorCode (handleRequest cfg net now el rq p hs) = JNum (- 32601)
          \<and> errorMessage (handleRequest cfg net now el rq p hs) = JStr ''Invalid routing strategy'')"
proof -
  let ?r = "\<lparr>config = routing cfg, servers = configServers cfg\<rparr>"
  let ?h = "handleRequest cfg net now el rq p hs"
  have total: "success (routeRequest r rq p hs)
      \<or> routeRequest r rq p hs = routingFailure ''Invalid routing strategy''
      \<or> routeRequest r rq p hs = routingFailure ''No route found''
      \<or> routeRequest r rq p hs = routingFailure ''Server not found''"
    using route_failure_messages [of r rq p hs] by blast
  have failed: "errorCode ?h = JNum (- 32601) \<and> \<not> hasKey ''result'' ?h
          \<and> (errorMessage ?h = JStr ''Invalid routing strategy''
               \<or> errorMessage ?h = JStr ''No route found''
               \<or> errorMessage ?h = JStr ''Server not found'')"
    if routed: "reqMethod rq \<noteq> ''get_methods''" and nos: "\<not> success (routeRequest ?r rq p hs)"
  proof -
    from route_failure_messages [OF nos]
    consider "routeRequest ?r rq p hs = routingFailure ''Invalid routing strategy''"
      | "routeRequest ?r rq p hs = routingFailure ''No route found''"
      | "routeRequest ?r rq p hs = routingFailure ''Server not found''"
      by blast
    then show ?thesis
    proof cases
      case 1
      from handleRequest_routing_failure [OF routed 1, of net now el] show ?thesis by simp
    next
      case 2
      from handleRequest_routing_failure [OF routed 2, of net now el] show ?thesis by simp
    next
      case 3
      from handleRequest_routing_failure [OF routed 3, of net now el] show ?thesis by simp
    qed
  qed
  have invalid: "errorCode ?h = JNum (- 32601) \<and> errorMessage ?h = JStr ''Invalid routing strategy''"
    if routed: "reqMethod rq \<noteq> ''get_methods''"
      and "strategy (routing cfg) \<noteq> ''prefix''" "strategy (routing cfg) \<noteq> ''header''"
  proof -
    from that have "routeRequest ?r rq p hs = routingFailure ''Invalid routing strategy''"
      using route_invalid_strategy [of ?r rq p hs] by simp
    from handleRequest_routing_failure [OF routed this, of net now el] show ?thesis by simp
  qed
  from total failed invalid show ?thesis by blast
qed

text \<open>
  A configuration whose strategy is \<open>regex\<close>: the request gets -32601 and the message
  of the invalid strategy.
\<close>

theorem routing_failure_is_method_not_found_witness:
  "errorCode
     (handleRequest
        \<lparr>configServers = [(''fs'', exampleServer ''fs'' ''http://localhost:8002'')],
         routing = \<lparr>strategy = ''regex'', rules = [(''fs'', ''fs'')], defaultServer = Some ''fs''\<rparr>\<rparr>
        (\<lambda>sUrl m n. Rejected (OtherError ''connect ECONNREFUSED'')) 0 5
        \<lparr>reqMethod = ''tools/call'', reqParams = JObj [], reqId = JStr ''9'', reqJsonrpc = ''2.0''\<rparr>
        (Some ''/fs/read'') None)
   = JNum (- 32601)
   \<and> errorMessage
     (handleRequest
        \<lparr>configServers = [(''fs'', exampleServer ''fs'' ''http://localhost:8002'')],
         routing = \<lparr>strategy = ''regex'', rules = [(''fs'', ''fs'')], defaultServer = Some ''fs''\<rparr>\<rparr>
        (\<lambda>sUrl m n. Rejected (OtherError ''connect ECONNREFUSED'')) 0 5
        \<lparr>reqMethod = ''tools/call'', reqParams = JObj [], reqId = JStr ''9'', reqJsonrpc = ''2.0''\<rparr>
        (Some ''/fs/read'') None)
   = JStr ''Invalid routing strategy''"
proof -
  let ?cfg = "\<lparr>configServers = [(''fs'', exampleServer ''fs'' ''http://localhost:8002'')],
         routing = \<lparr>strategy = ''regex'', rules = [(''fs'', ''fs'')], defaultServer = Some ''fs''\<rparr>\<rparr>"
  let ?rq = "\<lparr>reqMethod = ''tools/call'', reqParams = JObj [], reqId = JStr ''9'', reqJsonrpc = ''2.0''\<rparr>"
  have h: "reqMethod ?rq \<noteq> ''get_methods''
        \<and> strategy (routing ?cfg) \<noteq> ''prefix'' \<and> strategy (routing ?cfg) \<noteq> ''header''"
    by simp
  from routing_failure_is_method_not_found [where rq = ?rq and cfg = ?cfg and p = "Some ''/fs/read''"
      and hs = None and net = "\<lambda>sUrl m n. Rejected (OtherError ''connect ECONNREFUSED'')"
      and now = 0 and el = 5] h
  show ?thesis by blast
qed

section \<open>Properties of the aggregator\<close>

text \<open>A method with a name and nothing else, for the examples.\<close>

definition namedMethod :: "string \<Rightarrow> MCPMethod" where
  "namedMethod n = \<lparr>name = JStr n, description = JUndefined, inputSchema = JUndefined\<rparr>"

text \<open>
  The per-backend results of the round that \<^verbatim>\<open>aggregateMethods\<close> runs for the given
  options.
\<close>

definition roundResults ::
  "(string \<Rightarrow> MCPRequest \<Rightarrow> ForwardingOptions \<Rightarrow> string + jsval) \<Rightarrow> nat \<Rightarrow> (string \<times> string) list
     \<Rightarrow> AggregationOptions \<Rightarrow> ServerMethodResult list" where
  "roundResults fwd now serverUrls options =
     serverResultsOf fwd now
       (optAggregationTimeout (mergeAggregationOptions defaultAggregationOptions options)) serverUrls"

text \<open>Options that set \<^verbatim>\<open>continueOnPartialFailure\<close> to false and nothing else.\<close>

definition strictOptions :: AggregationOptions where
  "strictOptions =
     \<lparr>aggregationTimeout = None, includeServerInfo = None,
      conflictResolution = None, continueOnPartialFailure = Some False\<rparr>"

text \<open>
  A forwarder for two backends: the one at port 8001 answers every discovery request
  with one tool, the other one rejects.
\<close>

definition oneOfTwoDown :: "string \<Rightarrow> MCPRequest \<Rightarrow> ForwardingOptions \<Rightarrow> string + jsval" where
  "oneOfTwoDown sUrl request options =
     (if sUrl = ''http://localhost:8001''
      then Inr (createMCPResponse
                  (JObj [(''tools'', JArr [JObj [(''name'', JStr ''working_tool''),
                                                 (''description'', JStr ''Working tool'')]])])
                  (reqId request))
      else Inl ''Connection refused'')"

text \<open>A forwarder every call of which rejects.\<close>

definition allDown :: "string \<Rightarrow> MCPRequest \<Rightarrow> ForwardingOptions \<Rightarrow> string + jsval" where
  "allDown sUrl request options = Inl ''Connection refused''"

definition twoBackends :: "(string \<times> string) list" where
  "twoBackends = [(''working'', ''http://localhost:8001''), (''broken'', ''http://localhost:8002'')]"

definition workingTool :: MCPMethod where
  "workingTool =
     \<lparr>name = JStr ''working_tool'', description = JStr ''Working tool'',
      inputSchema = defaultSchema\<rparr>"

subsection \<open>The scan for a free suffix\<close>

lemma nextSuffix_unused: "\<not> mapHas m (JStr (suffixed nm (nextSuffix m nm c)))"
proof (induction m nm c rule: nextSuffix.induct)
  case (1 m nm c)
  then show ?case by (subst nextSuffix.simps) simp
qed

lemma nextSuffix_least:
  "c \<le> j \<Longrightarrow> j < nextSuffix m nm c \<Longrightarrow> mapHas m (JStr (suffixed nm j))"
proof (induction m nm c rule: nextSuffix.induct)
  case (1 m nm c)
  show ?case
  proof (cases "mapHas m (JStr (suffixed nm c))")
    case True
    show ?thesis
    proof (cases "j = c")
      case True
      with \<open>mapHas m (JStr (suffixed nm c))\<close> show ?thesis by simp
    next
      case False
      with "1.prems" have "c + 1 \<le> j" by simp
      moreover from "1.prems"(2) True have "j < nextSuffix m nm (c + 1)"
        by (subst (asm) nextSuffix.simps) simp
      ultimately show ?thesis using "1.IH" [OF True] by blast
    qed
  next
    case False
    then have "nextSuffix m nm c = c" by (subst nextSuffix.simps) simp
    with "1.prems" show ?thesis by simp
  qed
qed

lemma nextSuffix_ge: "c \<le> nextSuffix m nm c"
proof (induction m nm c rule: nextSuffix.induct)
  case (1 m nm c)
  show ?case
  proof (cases "mapHas m (JStr (suffixed nm c))")
    case True
    with "1.IH" have "c + 1 \<le> nextSuffix m nm (c + 1)" by simp
    then show ?thesis using True by (subst nextSuffix.simps) simp
  next
    case False
    then show ?thesis by (subst nextSuffix.simps) simp
  qed
qed

text \<open>A key that the map has is a primitive, and a primitive has a text.\<close>

lemma mapHas_text_exists: "mapHas m k \<Longrightarrow> \<exists>rendered. jsToString k = Some rendered"
  by (cases k) (simp_all add: mapHas_def)

lemma mapHas_empty: "\<not> mapHas [] k"
  by (cases k) (simp_all add: mapHas_def)

lemma resolveStep_suffix:
  assumes "mapHas m (name meth)" and "jsToString (name meth) = Some rendered"
  shows "resolveStep Suffix m meth =
     Inr (m @ [(JStr (suffixed rendered (nextSuffix m rendered 1)),
                meth\<lparr>name := JStr (suffixed rendered (nextSuffix m rendered 1))\<rparr>)])"
  using assms nextSuffix_unused [of m rendered 1]
  by (simp add: resolveStep_def renamed_def ensureUnique_def mapSet_def Let_def)

lemma resolveStep_fresh:
  assumes "\<not> mapHas m (name meth)"
  shows "resolveStep strat m meth = Inr (m @ [(name meth, meth)])"
  using assms by (simp add: resolveStep_def ensureUnique_def mapSet_def Let_def)

subsection \<open>Names that are not strings\<close>

text \<open>
  Two tools named by the number 7: the second one finds the name taken, and under the
  \<^verbatim>\<open>prefix\<close> strategy \<^verbatim>\<open>originalName.split\<close> throws. Under \<^verbatim>\<open>suffix\<close> the second is
  stored under the string \<open>7_1\<close>, the first under the number.
\<close>

lemma numeric_name_conflict:
  "resolveMethodConflicts
     [\<lparr>name = JNum 7, description = d1, inputSchema = s1\<rparr>,
      \<lparr>name = JNum 7, description = d2, inputSchema = s2\<rparr>] Prefix
   = Inl ''originalName.split is not a function''
   \<and> resolveMethodConflicts
     [\<lparr>name = JNum 7, description = d1, inputSchema = s1\<rparr>,
      \<lparr>name = JNum 7, description = d2, inputSchema = s2\<rparr>] Suffix
   = Inr [\<lparr>name = JNum 7, description = d1, inputSchema = s1\<rparr>,
          \<lparr>name = JStr ''7_1'', description = d2, inputSchema = s2\<rparr>]"
  by (simp add: resolveMethodConflicts_def resolveStep_def renamed_def prefixedName_def
        ensureUnique_def mapSet_def mapHas_def nextSuffix.simps suffixed_def decimal.simps
        digit10_def Let_def)

text \<open>
  A tool whose name is kept as the number it is, and one whose name has no text: the
  template for its description throws.
\<close>

lemma toMethod_keeps_values:
  "toMethod ''github'' (JObj [(''name'', JNum 7), (''description'', JBool True)])
   = Inr \<lparr>name = JNum 7, description = JBool True, inputSchema = defaultSchema\<rparr>
   \<and> toMethod ''github'' (JObj [(''name'', JNum 7)])
   = Inr \<lparr>name = JNum 7, description = JStr ''7 from github server'',
          inputSchema = defaultSchema\<rparr>
   \<and> toMethod ''github'' (JObj [(''name'', JObj [(''toString'', JNum 1)])])
   = Inl ''Cannot convert object to primitive value''"
  by (simp add: toMethod_def cannotConvert_def decimal.simps digit10_def Let_def)

subsection \<open>The two exits of a round\<close>

lemma allMethodsOf_none: "filter resultSuccess rs = [] \<Longrightarrow> allMethodsOf rs = []"
  by (induction rs) (auto simp: allMethodsOf_def split: if_splits)

lemma resolve_nothing: "resolveMethodConflicts [] strat = Inr []"
  by (simp add: resolveMethodConflicts_def)

lemma aggregate_outage_strict:
  assumes "filter resultSuccess (roundResults fwd now urls options) = []"
    and "continueOnPartialFailure options = Some False"
  shows "aggregateMethods fwd now urls options =
     Inr (createMCPErrorResponse (- 32603) ''All downstream servers failed to respond'' JUndefined
            (JObj [(''serverResults'',
                      JArr (map serverResultToJs (roundResults fwd now urls options)))]))"
  using assms
  by (simp add: aggregateMethods_def roundResults_def Let_def mergeAggregationOptions_def)

lemma aggregate_lenient:
  assumes "continueOnPartialFailure options \<noteq> Some False"
    and "resolveMethodConflicts (allMethodsOf (roundResults fwd now urls options))
           (optConflictResolution (mergeAggregationOptions defaultAggregationOptions options))
         = Inr resolved"
  shows "\<exists>envelope. aggregateMethods fwd now urls options = Inr envelope
     \<and> hasKey ''result'' envelope \<and> \<not> hasKey ''error'' envelope
     \<and> getProp (getProp envelope ''result'') ''methods'' = JArr (map methodToJs resolved)"
proof -
  from assms(1)
  have "optContinueOnPartialFailure (mergeAggregationOptions defaultAggregationOptions options)"
    by (cases "continueOnPartialFailure options")
       (simp_all add: mergeAggregationOptions_def defaultAggregationOptions_def)
  with assms(2) show ?thesis
    by (simp add: aggregateMethods_def roundResults_def Let_def createMCPResponse_def)
qed

lemma round_all_down:
  "roundResults allDown 0 twoBackends options
   = [\<lparr>resultServerName = ''working'', resultSuccess = False, resultMethods = None,
       resultError = Some ''Connection refused''\<rparr>,
      \<lparr>resultServerName = ''broken'', resultSuccess = False, resultMethods = None,
       resultError = Some ''Connection refused''\<rparr>]"
  by (simp add: roundResults_def serverResultsOf_def getMethodsFromServer_def methodNames_def
        twoBackends_def allDown_def)

lemma aggregate_all_down:
  "aggregateMethods allDown 0 twoBackends noAggregationOptions
   = Inr (createMCPResponse
       (JObj [(''methods'', JArr []),
              (''serverResults'',
                 JArr (map serverResultToJs (roundResults allDown 0 twoBackends noAggregationOptions))),
              (''aggregationStats'',
                 JObj [(''totalServers'', JNum 2), (''successfulServers'', JNum 0),
                       (''totalMethods'', JNum 0)])])
       JUndefined)"
  using round_all_down [of noAggregationOptions]
  by (simp add: aggregateMethods_def roundResults_def allMethodsOf_def resolve_nothing twoBackends_def
        noAggregationOptions_def mergeAggregationOptions_def defaultAggregationOptions_def Let_def)

lemma aggregate_all_down_strict:
  "aggregateMethods allDown 0 twoBackends strictOptions
   = Inr (createMCPErrorResponse (- 32603) ''All downstream servers failed to respond'' JUndefined
       (JObj [(''serverResults'',
                 JArr (map serverResultToJs (roundResults allDown 0 twoBackends strictOptions)))]))"
  by (rule aggregate_outage_strict) (simp_all add: round_all_down strictOptions_def)

lemma round_one_of_two:
  "roundResults oneOfTwoDown 0 twoBackends strictOptions
   = [\<lparr>resultServerName = ''working'', resultSuccess = True, resultMethods = Some [workingTool],
       resultError = None\<rparr>,
      \<lparr>resultServerName = ''broken'', resultSuccess = False, resultMethods = None,
       resultError = Some ''Connection refused''\<rparr>]"
  by (simp add: roundResults_def serverResultsOf_def getMethodsFromServer_def methodNames_def
        twoBackends_def oneOfTwoDown_def createMCPResponse_def extractMethodsFromResponse_def
        isArray_def elements_def toMethod_def workingTool_def Let_def)

lemma resolve_single: "resolveMethodConflicts [m] strat = Inr [m]"
  by (simp add: resolveMethodConflicts_def resolveStep_fresh mapHas_empty)

lemma aggregate_one_of_two:
  "aggregateMethods oneOfTwoDown 0 twoBackends strictOptions
   = Inr (createMCPResponse
       (JObj [(''methods'', JArr [methodToJs workingTool]),
              (''serverResults'',
                 JArr (map serverResultToJs (roundResults oneOfTwoDown 0 twoBackends strictOptions))),
              (''aggregationStats'',
                 JObj [(''totalServers'', JNum 2), (''successfulServers'', JNum 1),
                       (''totalMethods'', JNum 1)])])
       JUndefined)"
  using round_one_of_two
  by (simp add: aggregateMethods_def roundResults_def allMethodsOf_def resolve_single twoBackends_def
        strictOptions_def mergeAggregationOptions_def defaultAggregationOptions_def Let_def)

section \<open>The claims about the aggregator\<close>

text \<open>
  Claim C1. A round in which no backend succeeds is said to end in the error envelope
  with code -32603 whatever \<open>continueOnPartialFailure\<close> is. \<open>aggregateMethods\<close> tests
  the flag too: with two backends that both reject and the default options, where the
  flag is true, it returns a success envelope with an empty method list, while
  \<open>handlePartialFailures\<close> on the same results says not to continue even with the flag
  true. With the flag false the same round does end in the error -32603.
\<close>

theorem outage_with_default_flag_returns_success:
  "map resultSuccess (roundResults allDown 0 twoBackends noAggregationOptions) = [False, False]
   \<and> aggregateMethods allDown 0 twoBackends noAggregationOptions
      = Inr (createMCPResponse
          (JObj [(''methods'', JArr []),
                 (''serverResults'',
                    JArr [JObj [(''serverName'', JStr ''working''), (''success'', JBool False),
                                (''error'', JStr ''Connection refused'')],
                          JObj [(''serverName'', JStr ''broken''), (''success'', JBool False),
                                (''error'', JStr ''Connection refused'')]]),
                 (''aggregationStats'',
                    JObj [(''totalServers'', JNum 2), (''successfulServers'', JNum 0),
                          (''totalMethods'', JNum 0)])])
          JUndefined)
   \<and> errorCode (projr (aggregateMethods allDown 0 twoBackends noAggregationOptions))
      \<noteq> JNum (- 32603)
   \<and> handlePartialFailures (roundResults allDown 0 twoBackends noAggregationOptions) True
      = (False, Some ''All servers failed to respond'')
   \<and> aggregateMethods allDown 0 twoBackends strictOptions
      = Inr (createMCPErrorResponse (- 32603) ''All downstream servers failed to respond''
          JUndefined
          (JObj [(''serverResults'',
                    JArr [JObj [(''serverName'', JStr ''working''), (''success'', JBool False),
                                (''error'', JStr ''Connection refused'')],
                          JObj [(''serverName'', JStr ''broken''), (''success'', JBool False),
                                (''error'', JStr ''Connection refused'')]])]))
   \<and> errorCode (projr (aggregateMethods allDown 0 twoBackends strictOptions)) = JNum (- 32603)"
  by (simp add: aggregate_all_down aggregate_all_down_strict round_all_down
        handlePartialFailures_def serverResultToJs_def)
     (simp add: createMCPResponse_def errorCode_def)

text \<open>
  Claim C2. With \<open>continueOnPartialFailure\<close> false and one of two backends failing, the
  round is said to end in an aggregate error. \<open>aggregateMethods\<close> escalates only when no
  backend succeeded: here it returns a success envelope with the surviving backend's
  tool, while \<open>handlePartialFailures\<close> on the same results and the same flag says not to
  continue.
\<close>

theorem strict_flag_ignores_partial_failure:
  "map resultSuccess (roundResults oneOfTwoDown 0 twoBackends strictOptions) = [True, False]
   \<and> aggregateMethods oneOfTwoDown 0 twoBackends strictOptions
      = Inr (createMCPResponse
          (JObj [(''methods'',
                    JArr [JObj [(''name'', JStr ''working_tool''),
                                (''description'', JStr ''Working tool''),
                                (''inputSchema'', defaultSchema)]]),
                 (''serverResults'',
                    JArr [JObj [(''serverName'', JStr ''working''), (''success'', JBool True),
                                (''methods'',
                                   JArr [JObj [(''name'', JStr ''working_tool''),
                                               (''description'', JStr ''Working tool''),
                                               (''inputSchema'', defaultSchema)]])],
                          JObj [(''serverName'', JStr ''broken''), (''success'', JBool False),
                                (''error'', JStr ''Connection refused'')]]),
                 (''aggregationStats'',
                    JObj [(''totalServers'', JNum 2), (''successfulServers'', JNum 1),
                          (''totalMethods'', JNum 1)])])
          JUndefined)
   \<and> hasKey ''result'' (projr (aggregateMethods oneOfTwoDown 0 twoBackends strictOptions))
   \<and> \<not> hasKey ''error'' (projr (aggregateMethods oneOfTwoDown 0 twoBackends strictOptions))
   \<and> getProp (getProp (projr (aggregateMethods oneOfTwoDown 0 twoBackends strictOptions))
        ''result'') ''methods''
      = JArr [JObj [(''name'', JStr ''working_tool''), (''description'', JStr ''Working tool''),
                    (''inputSchema'', defaultSchema)]]
   \<and> handlePartialFailures (roundResults oneOfTwoDown 0 twoBackends strictOptions) False
      = (False, Some ''1 servers failed: broken'')"
  by (simp add: aggregate_one_of_two round_one_of_two methodToJs_def serverResultToJs_def
        workingTool_def handlePartialFailures_def decimal.simps digit10_def)
     (simp add: createMCPResponse_def)

text \<open>
  Claim C9. Under the suffix strategy, the methods \<open>t1, t2\<close> of one backend followed by
  \<open>t2, t3\<close> of another are merged into \<open>t1, t2, t2_1, t3\<close>, everything but the name left
  as it was. In general a method whose name is taken is stored under the text of the
  name followed by \<open>_k\<close>, where \<open>k\<close> is the first counter from 1 whose suffixed name is
  free: every smaller one is taken. A name that is taken has a text, which for a string
  is the string.
\<close>

theorem suffix_strategy_numbers_per_name:
  "resolveMethodConflicts
      ([\<lparr>name = JStr ''t1'', description = d1, inputSchema = s1\<rparr>,
        \<lparr>name = JStr ''t2'', description = d2, inputSchema = s2\<rparr>]
       @ [\<lparr>name = JStr ''t2'', description = d3, inputSchema = s3\<rparr>,
          \<lparr>name = JStr ''t3'', description = d4, inputSchema = s4\<rparr>]) Suffix
     = Inr [\<lparr>name = JStr ''t1'', description = d1, inputSchema = s1\<rparr>,
            \<lparr>name = JStr ''t2'', description = d2, inputSchema = s2\<rparr>,
            \<lparr>name = JStr ''t2_1'', description = d3, inputSchema = s3\<rparr>,
            \<lparr>name = JStr ''t3'', description = d4, inputSchema = s4\<rparr>]
   \<and> jsToString (JStr nm) = Some nm
   \<and> (mapHas m (name meth) \<longrightarrow>
        (\<exists>rendered. jsToString (name meth) = Some rendered
           \<and> 1 \<le> nextSuffix m rendered 1
           \<and> \<not> mapHas m (JStr (suffixed rendered (nextSuffix m rendered 1)))
           \<and> (\<forall>j. 1 \<le> j \<and> j < nextSuffix m rendered 1 \<longrightarrow> mapHas m (JStr (suffixed rendered j)))
           \<and> resolveStep Suffix m meth =
                Inr (m @ [(JStr (suffixed rendered (nextSuffix m rendered 1)),
                           meth\<lparr>name := JStr (suffixed rendered (nextSuffix m rendered 1))\<rparr>)])))"
proof -
  have example: "resolveMethodConflicts
      ([\<lparr>name = JStr ''t1'', description = d1, inputSchema = s1\<rparr>,
        \<lparr>name = JStr ''t2'', description = d2, inputSchema = s2\<rparr>]
       @ [\<lparr>name = JStr ''t2'', description = d3, inputSchema = s3\<rparr>,
          \<lparr>name = JStr ''t3'', description = d4, inputSchema = s4\<rparr>]) Suffix
     = Inr [\<lparr>name = JStr ''t1'', description = d1, inputSchema = s1\<rparr>,
            \<lparr>name = JStr ''t2'', description = d2, inputSchema = s2\<rparr>,
            \<lparr>name = JStr ''t2_1'', description = d3, inputSchema = s3\<rparr>,
            \<lparr>name = JStr ''t3'', description = d4, inputSchema = s4\<rparr>]"
    by (simp add: resolveMethodConflicts_def resolveStep_def renamed_def ensureUnique_def
          mapSet_def mapHas_def nextSuffix.simps suffixed_def decimal.simps digit10_def Let_def)
  have general: "\<exists>rendered. jsToString (name meth) = Some rendered
           \<and> 1 \<le> nextSuffix m rendered 1
           \<and> \<not> mapHas m (JStr (suffixed rendered (nextSuffix m rendered 1)))
           \<and> (\<forall>j. 1 \<le> j \<and> j < nextSuffix m rendered 1 \<longrightarrow> mapHas m (JStr (suffixed rendered j)))
           \<and> resolveStep Suffix m meth =
                Inr (m @ [(JStr (suffixed rendered (nextSuffix m rendered 1)),
                           meth\<lparr>name := JStr (suffixed rendered (nextSuffix m rendered 1))\<rparr>)])"
    if has: "mapHas m (name meth)"
  proof -
    from has obtain rendered where conv: "jsToString (name meth) = Some rendered"
      using mapHas_text_exists by blast
    have "1 \<le> nextSuffix m rendered 1" by (rule nextSuffix_ge)
    moreover have "\<not> mapHas m (JStr (suffixed rendered (nextSuffix m rendered 1)))"
      by (rule nextSuffix_unused)
    moreover have "\<forall>j. 1 \<le> j \<and> j < nextSuffix m rendered 1 \<longrightarrow> mapHas m (JStr (suffixed rendered j))"
      using nextSuffix_least [of 1 _ m rendered] by blast
    moreover note resolveStep_suffix [OF has conv]
    ultimately show ?thesis using conv by blast
  qed
  from example general show ?thesis by simp
qed

text \<open>
  With \<open>dup\<close> and \<open>dup_1\<close> in the map, a third \<open>dup\<close> is stored as \<open>dup_2\<close>.
\<close>

theorem suffix_strategy_numbers_per_name_witness:
  "mapHas [(JStr ''dup'', namedMethod ''dup''), (JStr ''dup_1'', namedMethod ''dup_1'')]
     (JStr ''dup'')
   \<and> nextSuffix [(JStr ''dup'', namedMethod ''dup''), (JStr ''dup_1'', namedMethod ''dup_1'')]
        ''dup'' 1 = 2
   \<and> resolveStep Suffix
        [(JStr ''dup'', namedMethod ''dup''), (JStr ''dup_1'', namedMethod ''dup_1'')]
        (namedMethod ''dup'')
      = Inr [(JStr ''dup'', namedMethod ''dup''), (JStr ''dup_1'', namedMethod ''dup_1''),
             (JStr ''dup_2'', namedMethod ''dup_2'')]"
proof -
  let ?m = "[(JStr ''dup'', namedMethod ''dup''), (JStr ''dup_1'', namedMethod ''dup_1'')]"
  have nm: "name (namedMethod ''dup'') = JStr ''dup''" by (simp add: namedMethod_def)
  have has: "mapHas ?m (name (namedMethod ''dup''))" by (simp add: mapHas_def nm)
  have two: "nextSuffix ?m ''dup'' 1 = 2"
    by (simp add: nextSuffix.simps mapHas_def suffixed_def decimal.simps digit10_def)
  have key: "suffixed ''dup'' 2 = ''dup_2''"
    by (simp add: suffixed_def decimal.simps digit10_def)
  from suffix_strategy_numbers_per_name [of _ _ _ _ _ _ _ _ _ ?m "namedMethod ''dup''"] has
  obtain rendered where conv: "jsToString (name (namedMethod ''dup'')) = Some rendered"
    and step: "resolveStep Suffix ?m (namedMethod ''dup'') =
          Inr (?m @ [(JStr (suffixed rendered (nextSuffix ?m rendered 1)),
                 (namedMethod ''dup'')\<lparr>name := JStr (suffixed rendered (nextSuffix ?m rendered 1))\<rparr>)])"
    by blast
  from conv have "rendered = ''dup''" by (simp add: nm)
  with step have "resolveStep Suffix ?m (namedMethod ''dup'')
      = Inr (?m @ [(JStr ''dup_2'', (namedMethod ''dup'')\<lparr>name := JStr ''dup_2''\<rparr>)])"
    by (simp only: two key)
  moreover have "(namedMethod ''dup'')\<lparr>name := JStr ''dup_2''\<rparr> = namedMethod ''dup_2''"
    by (simp add: namedMethod_def)
  ultimately have "resolveStep Suffix ?m (namedMethod ''dup'')
      = Inr (?m @ [(JStr ''dup_2'', namedMethod ''dup_2'')])"
    by simp
  with has two nm show ?thesis by simp
qed

section \<open>Properties of redaction\<close>

text \<open>
  A value in which every sensitive key, at any depth, holds the redaction marker.
\<close>

fun fullyRedacted :: "jsval \<Rightarrow> bool"
  and fullyRedactedProps :: "(string \<times> jsval) list \<Rightarrow> bool"
  and fullyRedactedItems :: "jsval list \<Rightarrow> bool" where
  "fullyRedacted (JObj kvs) = fullyRedactedProps kvs"
| "fullyRedacted (JArr xs) = fullyRedactedItems xs"
| "fullyRedacted JUndefined = True"
| "fullyRedacted JNull = True"
| "fullyRedacted (JBool b) = True"
| "fullyRedacted (JNum n) = True"
| "fullyRedacted (JStr s) = True"
| "fullyRedactedProps [] = True"
| "fullyRedactedProps ((key, v) # kvs) =
     ((if isSensitive key then v = redacted else fullyRedacted v) \<and> fullyRedactedProps kvs)"
| "fullyRedactedItems [] = True"
| "fullyRedactedItems (v # vs) = (fullyRedacted v \<and> fullyRedactedItems vs)"

lemma primitive_fullyRedacted: "typeof v \<noteq> ''object'' \<Longrightarrow> fullyRedacted v"
  by (cases v) simp_all

lemma sanitize_fullyRedacted:
  "fullyRedacted (sanitizeErrorData v)"
  "fullyRedactedProps (sanitizeProps kvs)"
  "fullyRedactedProps (sanitizeItems i xs)"
  by (induction v and kvs and i xs rule: sanitizeErrorData_sanitizeProps_sanitizeItems.induct)
     (simp_all add: primitive_fullyRedacted)

lemma sanitize_primitive: "typeof v \<noteq> ''object'' \<Longrightarrow> sanitizeErrorData v = v"
  by (cases v) simp_all

lemma sanitizeProps_keys: "map fst (sanitizeProps kvs) = map fst kvs"
  by (induction kvs) auto

section \<open>The claim about redaction\<close>

lemma sensitive_examples:
  "\<not> isSensitive ''user''" "isSensitive ''password''" "\<not> isSensitive ''tags''"
  "\<not> isSensitive ''0''" "\<not> isSensitive ''1''"
  by (simp_all add: isSensitive_def sensitiveKeys_def toLowerCase_def lowerChar_def)

lemma index_keys: "decimal 0 = ''0''" "decimal (Suc 0) = ''1''"
  by (simp_all add: decimal.simps digit10_def)

text \<open>
  Claim C8. The redaction pass is said to leave arrays structurally intact. The copy
  \<^verbatim>\<open>{ ...data }\<close> of an array is an object keyed by the indices, so an array comes back
  as an object, at the top level and under a key that is not sensitive; the sensitive
  key beside it is redacted and the string beside it is untouched.
\<close>

theorem sanitizeErrorData_turns_arrays_into_objects:
  "sanitizeErrorData
     (JObj [(''user'', JStr ''alice''), (''password'', JStr ''hunter2''),
            (''tags'', JArr [JStr ''a'', JStr ''b''])])
   = JObj [(''user'', JStr ''alice''), (''password'', JStr ''[REDACTED]''),
           (''tags'', JObj [(''0'', JStr ''a''), (''1'', JStr ''b'')])]
   \<and> sanitizeErrorData (JArr [JNum 1, JNum 2]) = JObj [(''0'', JNum 1), (''1'', JNum 2)]"
  using sensitive_examples by (simp add: index_keys redacted_def)


end
